theory Spec2Isabelle
  imports Complex_Main
begin

section \<open>Pending actions store (src/webhook/app.py, class PendingActionsManager)\<close>

text \<open>
  Python floats are modelled as \<^typ>\<open>real\<close> (rounding is abstracted away), Python
  integers as \<^typ>\<open>int\<close>. A naive \<open>datetime\<close> is an \<^typ>\<open>int\<close> counting microseconds;
  the ISO strings that the SQLite backend stores and compares are fixed-width up to an
  optional six-digit fraction, so their lexicographic order is the order of these
  integers. A dictionary key that is read with \<open>.get\<close> is an \<^typ>\<open>'a option\<close> field.
  The clock of the store is not bounded: adding the 24 hours of the expiry overflows a
  \<open>datetime\<close> only on the last day of year 9999.
\<close>

type_synonym token = string

datatype exn =
    NameError string
  | KeyError string
  | ValueError string
  | OverflowError string
  | StorageError
  | Raised string

record batch_item =
  item_sku :: string
  item_vendor :: string
  item_quantity :: real
  item_total_cost :: real
  item_notion_page_id :: "string option"

record action_data =
  ad_sku :: string
  ad_action_type :: string
  ad_vendor :: string
  ad_quantity :: real
  ad_total_cost :: real
  ad_rationale :: "string option"
  ad_notion_page_id :: "string option"
  ad_items :: "batch_item list option"

record pending_action =
  pa_sku :: string
  pa_action_type :: string
  pa_vendor :: string
  pa_quantity :: real
  pa_total_cost :: real
  pa_rationale :: "string option"
  pa_notion_page_id :: "string option"
  pa_items :: "batch_item list option"
  pa_expires_at :: int
  pa_status :: string

text \<open>
  The manager: which backend it chose at start-up, the table (SQLite rows keyed by the
  primary key \<open>token\<close>, or the JSON document keyed by token), and whether the backing
  file currently makes every storage call raise.
\<close>

record pending_manager =
  use_sqlite :: bool
  entries :: "token \<rightharpoonup> pending_action"
  io_error :: bool

definition hours_24 :: int where
  "hours_24 = 24 * 3600 * 1000000"

definition get_default :: "string option \<Rightarrow> string \<Rightarrow> string" where
  "get_default v d = (case v of None \<Rightarrow> d | Some s \<Rightarrow> s)"

text \<open>
  \<open>store_pending_action\<close>: the SQLite branch is \<open>INSERT OR REPLACE\<close> over the columns
  the table has (there is no column for \<open>items\<close>; \<open>status\<close> takes its column default
  \<open>'pending'\<close>); the JSON branch stores \<open>{**action_data, expires_at, status}\<close>.
  Any exception is caught and answered with \<open>False\<close>.
\<close>

definition store_pending_action ::
  "pending_manager \<Rightarrow> int \<Rightarrow> token \<Rightarrow> action_data \<Rightarrow> pending_manager \<times> bool" where
  "store_pending_action m now tok a =
     (if io_error m then (m, False)
      else
        let expires_at = now + hours_24 in
        if use_sqlite m then
          (m\<lparr>entries := (entries m)(tok \<mapsto>
               \<lparr>pa_sku = ad_sku a, pa_action_type = ad_action_type a,
                pa_vendor = ad_vendor a, pa_quantity = ad_quantity a,
                pa_total_cost = ad_total_cost a,
                pa_rationale = Some (get_default (ad_rationale a) ''''),
                pa_notion_page_id = Some (get_default (ad_notion_page_id a) ''''),
                pa_items = None,
                pa_expires_at = expires_at, pa_status = ''pending''\<rparr>)\<rparr>, True)
        else
          (m\<lparr>entries := (entries m)(tok \<mapsto>
               \<lparr>pa_sku = ad_sku a, pa_action_type = ad_action_type a,
                pa_vendor = ad_vendor a, pa_quantity = ad_quantity a,
                pa_total_cost = ad_total_cost a,
                pa_rationale = ad_rationale a,
                pa_notion_page_id = ad_notion_page_id a,
                pa_items = ad_items a,
                pa_expires_at = expires_at, pa_status = ''pending''\<rparr>)\<rparr>, True))"

text \<open>
  \<open>get_pending_action\<close>: the SQLite branch selects \<open>WHERE token = ? AND status =
  'pending' AND expires_at > ?\<close>; the JSON branch looks the token up, tests the status and
  then the expiry. Every other path, the \<open>except\<close> branch included, returns \<open>None\<close>.
\<close>

definition get_pending_action ::
  "pending_manager \<Rightarrow> int \<Rightarrow> token \<Rightarrow> pending_action option" where
  "get_pending_action m now tok =
     (if io_error m then None
      else if use_sqlite m then
        (case entries m tok of
           None \<Rightarrow> None
         | Some row \<Rightarrow>
             if pa_status row = ''pending'' \<and> pa_expires_at row > now then Some row
             else None)
      else
        (case entries m tok of
           None \<Rightarrow> None
         | Some action \<Rightarrow>
             if pa_status action = ''pending'' then
               (if pa_expires_at action > now then Some action else None)
             else None))"

text \<open>
  \<open>update_action_status\<close>: \<open>UPDATE ... SET status = ? WHERE token = ?\<close>, or, on the
  JSON document, \<open>if token in data: data[token]['status'] = status\<close>. The function
  returns \<open>True\<close> unless an exception was caught.
\<close>

definition update_action_status ::
  "pending_manager \<Rightarrow> token \<Rightarrow> string \<Rightarrow> pending_manager \<times> bool" where
  "update_action_status m tok status =
     (if io_error m then (m, False)
      else if use_sqlite m then
        (case entries m tok of
           None \<Rightarrow> (m, True)
         | Some row \<Rightarrow> (m\<lparr>entries := (entries m)(tok \<mapsto> row\<lparr>pa_status := status\<rparr>)\<rparr>, True))
      else
        (if entries m tok \<noteq> None then
           (m\<lparr>entries := (entries m)(tok \<mapsto> (the (entries m tok))\<lparr>pa_status := status\<rparr>)\<rparr>, True)
         else (m, True)))"

section \<open>Approval endpoints (src/webhook/app.py)\<close>

text \<open>
  The external collaborators are parameters. A call either returns or raises; a raised
  exception is the \<open>Inl\<close> or \<open>Some\<close> value. The world records the calls an endpoint
  issues, in order, the exceptions that best-effort steps caught and logged, and the
  recompute file.
\<close>

record order_result =
  or_success :: bool
  or_order_id :: "string option"
  or_delivery_date :: "string option"
  or_error :: "string option"

datatype event =
    StoreRead token
  | StoreWrite token string
  | PlaceOrder string string real
  | UpdatePage string string string
  | UpdateSheet string string string
  | WriteRecompute string

record recompute_msg =
  rc_sku :: string
  rc_reason :: string
  rc_timestamp :: int
  rc_original_vendor :: string
  rc_original_quantity :: real

record env =
  webhook_secret :: string
  place_order :: "string \<Rightarrow> string \<Rightarrow> real \<Rightarrow> exn + order_result"
  update_page_properties :: "string \<Rightarrow> string \<Rightarrow> exn option"
  update_reorder_status :: "string \<Rightarrow> string \<Rightarrow> string \<Rightarrow> exn option"
  update_inventory_status :: "string \<Rightarrow> string \<Rightarrow> string \<Rightarrow> exn option"
  write_recompute_file :: "exn option"
  init_batch_connectors :: "exn option"

record world =
  manager :: pending_manager
  trace :: "event list"
  logged_errors :: "exn list"
  recompute_tasks :: "recompute_msg list"

datatype details =
    ApproveDetails string string real real string
  | RejectDetails string real real

record approved_item =
  ap_sku :: string
  ap_order_id :: string
  ap_quantity :: real
  ap_vendor :: string

record failed_item =
  fl_sku :: string
  fl_error :: string

record rejected_item =
  rj_sku :: string
  rj_quantity :: real
  rj_vendor :: string
  rj_cost :: real

datatype body =
    HttpError string
  | ErrorHtml string
  | SuccessHtml string string details
  | BatchApprovalHtml "approved_item list" "failed_item list" real
  | BatchRejectionHtml "rejected_item list" real

record response =
  status_code :: nat
  body :: body

text \<open>\<open>str(e)\<close> of a caught exception.\<close>

fun exn_message :: "exn \<Rightarrow> string" where
  "exn_message (NameError n) = ''name '' @ [CHR 0x27] @ n @ [CHR 0x27] @ '' is not defined''"
| "exn_message (KeyError k) = [CHR 0x27] @ k @ [CHR 0x27]"
| "exn_message (ValueError s) = s"
| "exn_message (OverflowError s) = s"
| "exn_message StorageError = ''unable to open database file''"
| "exn_message (Raised s) = s"

definition emit :: "event \<Rightarrow> world \<Rightarrow> world" where
  "emit e w = w\<lparr>trace := trace w @ [e]\<rparr>"

definition log_error :: "exn \<Rightarrow> world \<Rightarrow> world" where
  "log_error e w = w\<lparr>logged_errors := logged_errors w @ [e]\<rparr>"

text \<open>
  A best-effort step: the call is issued; an exception it raises is caught and logged.
\<close>

definition best_effort :: "event \<Rightarrow> exn option \<Rightarrow> world \<Rightarrow> world" where
  "best_effort e outcome w =
     (case outcome of None \<Rightarrow> emit e w | Some x \<Rightarrow> log_error x (emit e w))"

definition truthy :: "string option \<Rightarrow> bool" where
  "truthy v = (case v of None \<Rightarrow> False | Some s \<Rightarrow> s \<noteq> [])"

text \<open>
  The module binds the \<open>PendingActionsManager\<close> instance to the global name
  \<open>pending_manager\<close> and to no other name; looking up any other name for it raises
  \<open>NameError\<close>.
\<close>

definition global_manager :: "string \<Rightarrow> world \<Rightarrow> exn + pending_manager" where
  "global_manager name w =
     (if name = ''pending_manager'' then Inr (manager w) else Inl (NameError name))"

definition set_status :: "token \<Rightarrow> string \<Rightarrow> world \<Rightarrow> world" where
  "set_status tok status w =
     (emit (StoreWrite tok status) w)\<lparr>manager := fst (update_action_status (manager w) tok status)\<rparr>"

definition approve_action :: "env \<Rightarrow> int \<Rightarrow> world \<Rightarrow> token \<Rightarrow> string \<Rightarrow> world \<times> response" where
  "approve_action E now w tok secret =
     (if secret \<noteq> webhook_secret E then
        (w, \<lparr>status_code = 403, body = HttpError ''Invalid webhook secret''\<rparr>)
      else
        case global_manager ''pending_manager'' w of
          Inl e \<Rightarrow> (w, \<lparr>status_code = 500, body = HttpError ''Internal Server Error''\<rparr>)
        | Inr mgr \<Rightarrow>
           (let w1 = emit (StoreRead tok) w in
            case get_pending_action mgr now tok of
              None \<Rightarrow>
                (w1, \<lparr>status_code = 404, body = ErrorHtml
                  ''Invalid or expired approval token. The action may have already been processed or expired.''\<rparr>)
            | Some action \<Rightarrow>
               (let sku = pa_sku action; vendor = pa_vendor action;
                    quantity = pa_quantity action; total_cost = pa_total_cost action;
                    notion_page_id = pa_notion_page_id action;
                    w2 = emit (PlaceOrder vendor sku quantity) w1
                in case place_order E vendor sku quantity of
                     Inl e \<Rightarrow>
                       (w2, \<lparr>status_code = 500,
                             body = ErrorHtml (''Failed to process approval: '' @ exn_message e)\<rparr>)
                   | Inr order_result \<Rightarrow>
                      (let order_id = get_default (or_order_id order_result) ''N/A'';
                           delivery_date = get_default (or_delivery_date order_result) ''TBD'';
                           w3 = (if truthy notion_page_id then
                                   best_effort (UpdatePage (the notion_page_id) ''Ordered'' order_id)
                                     (update_page_properties E (the notion_page_id) ''Ordered'') w2
                                 else w2);
                           w4 = best_effort (UpdateSheet sku ''Ordered'' order_id)
                                  (update_inventory_status E sku ''Ordered'' order_id) w3;
                           w5 = set_status tok ''approved'' w4
                       in (w5, \<lparr>status_code = 200,
                                body = SuccessHtml ''approve'' sku
                                  (ApproveDetails order_id vendor quantity total_cost delivery_date)\<rparr>)))))"

definition reject_action :: "env \<Rightarrow> int \<Rightarrow> world \<Rightarrow> token \<Rightarrow> string \<Rightarrow> world \<times> response" where
  "reject_action E now w tok secret =
     (if secret \<noteq> webhook_secret E then
        (w, \<lparr>status_code = 403, body = HttpError ''Invalid webhook secret''\<rparr>)
      else
        case global_manager ''pending_manager'' w of
          Inl e \<Rightarrow> (w, \<lparr>status_code = 500, body = HttpError ''Internal Server Error''\<rparr>)
        | Inr mgr \<Rightarrow>
           (let w1 = emit (StoreRead tok) w in
            case get_pending_action mgr now tok of
              None \<Rightarrow>
                (w1, \<lparr>status_code = 404, body = ErrorHtml
                  ''Invalid or expired rejection token. The action may have already been processed or expired.''\<rparr>)
            | Some action \<Rightarrow>
               (let sku = pa_sku action; vendor = pa_vendor action;
                    quantity = pa_quantity action; total_cost = pa_total_cost action;
                    notion_page_id = pa_notion_page_id action;
                    w2 = (if truthy notion_page_id then
                            best_effort (UpdatePage (the notion_page_id) ''Rejected'' '''')
                              (update_page_properties E (the notion_page_id) ''Rejected'') w1
                          else w1);
                    w3 = best_effort (UpdateSheet sku ''Rejected'' '''')
                           (update_inventory_status E sku ''Rejected'' '''') w2;
                    w4 = set_status tok ''rejected'' w3;
                    recompute = \<lparr>rc_sku = sku, rc_reason = ''manual_rejection'',
                                 rc_timestamp = now, rc_original_vendor = vendor,
                                 rc_original_quantity = quantity\<rparr>;
                    w5 = (case write_recompute_file E of
                            None \<Rightarrow> (emit (WriteRecompute sku) w4)
                                      \<lparr>recompute_tasks := recompute_tasks w4 @ [recompute]\<rparr>
                          | Some x \<Rightarrow> log_error x (emit (WriteRecompute sku) w4))
                in (w5, \<lparr>status_code = 200,
                         body = SuccessHtml ''reject'' sku
                           (RejectDetails vendor quantity total_cost)\<rparr>))))"

text \<open>
  The batch endpoints return plain strings under \<open>response_class=HTMLResponse\<close>, so
  every outcome, the error pages included, carries status 200. Their whole body is inside
  one \<open>try\<close>; the manager is addressed through the global name \<open>pending_actions\<close>.
\<close>

definition approve_batch_item ::
  "env \<Rightarrow> token \<Rightarrow> batch_item \<Rightarrow> world \<times> approved_item list \<times> failed_item list
     \<Rightarrow> world \<times> approved_item list \<times> failed_item list" where
  "approve_batch_item E tok item acc =
     (case acc of (w, approved_items, failed_items) \<Rightarrow>
        let sku = item_sku item;
            w1 = emit (PlaceOrder (item_vendor item) sku (item_quantity item)) w
        in case place_order E (item_vendor item) sku (item_quantity item) of
             Inl e \<Rightarrow>
               (log_error e w1, approved_items,
                failed_items @ [\<lparr>fl_sku = sku, fl_error = exn_message e\<rparr>])
           | Inr order_result \<Rightarrow>
               if or_success order_result then
                 (let order_id = get_default (or_order_id order_result)
                                   (''BATCH-'' @ take 8 tok @ ''-'' @ sku);
                      page = (if truthy (item_notion_page_id item) then
                                Some (the (item_notion_page_id item)) else None);
                      w2 = (case page of None \<Rightarrow> w1
                            | Some p \<Rightarrow> emit (UpdatePage p ''ordered'' order_id) w1)
                  in case (case page of None \<Rightarrow> None
                           | Some p \<Rightarrow> update_reorder_status E p ''ordered'' order_id) of
                       Some e \<Rightarrow>
                         (log_error e w2, approved_items,
                          failed_items @ [\<lparr>fl_sku = sku, fl_error = exn_message e\<rparr>])
                     | None \<Rightarrow>
                        (let w3 = emit (UpdateSheet sku ''ordered'' order_id) w2
                         in case update_inventory_status E sku ''ordered'' order_id of
                              Some e \<Rightarrow>
                                (log_error e w3, approved_items,
                                 failed_items @ [\<lparr>fl_sku = sku, fl_error = exn_message e\<rparr>])
                            | None \<Rightarrow>
                                (w3,
                                 approved_items @ [\<lparr>ap_sku = sku, ap_order_id = order_id,
                                    ap_quantity = item_quantity item,
                                    ap_vendor = item_vendor item\<rparr>],
                                 failed_items)))
               else
                 (w1, approved_items,
                  failed_items @ [\<lparr>fl_sku = sku,
                     fl_error = get_default (or_error order_result) ''Unknown error''\<rparr>]))"

fun approve_batch_items ::
  "env \<Rightarrow> token \<Rightarrow> batch_item list \<Rightarrow> world \<times> approved_item list \<times> failed_item list
     \<Rightarrow> world \<times> approved_item list \<times> failed_item list" where
  "approve_batch_items E tok [] acc = acc"
| "approve_batch_items E tok (item # items) acc =
     approve_batch_items E tok items (approve_batch_item E tok item acc)"

definition action_items :: "pending_action \<Rightarrow> batch_item list" where
  "action_items action = (case pa_items action of None \<Rightarrow> [] | Some is \<Rightarrow> is)"

definition approve_batch_action ::
  "env \<Rightarrow> int \<Rightarrow> world \<Rightarrow> token \<Rightarrow> string \<Rightarrow> world \<times> response" where
  "approve_batch_action E now w tok secret =
     (if secret \<noteq> webhook_secret E then
        (w, \<lparr>status_code = 200, body = ErrorHtml ''Invalid webhook secret''\<rparr>)
      else
        case global_manager ''pending_actions'' w of
          Inl e \<Rightarrow>
            (w, \<lparr>status_code = 200,
                 body = ErrorHtml (''Error processing batch approval: '' @ exn_message e)\<rparr>)
        | Inr mgr \<Rightarrow>
           (let w1 = emit (StoreRead tok) w in
            case get_pending_action mgr now tok of
              None \<Rightarrow>
                (w1, \<lparr>status_code = 200,
                      body = ErrorHtml ''Batch approval token not found or expired''\<rparr>)
            | Some action \<Rightarrow>
                if pa_action_type action \<noteq> ''batch_reorder'' then
                  (w1, \<lparr>status_code = 200,
                        body = ErrorHtml ''Invalid action type for batch approval''\<rparr>)
                else
                  (case init_batch_connectors E of
                     Some e \<Rightarrow>
                       (w1, \<lparr>status_code = 200,
                             body = ErrorHtml (''Error processing batch approval: '' @ exn_message e)\<rparr>)
                   | None \<Rightarrow>
                      (case approve_batch_items E tok (action_items action) (w1, [], []) of
                         (w2, approved_items, failed_items) \<Rightarrow>
                           (let w3 = set_status tok ''approved'' w2;
                                total_cost = sum_list (map item_total_cost (action_items action))
                            in (w3, \<lparr>status_code = 200,
                                     body = BatchApprovalHtml approved_items failed_items total_cost\<rparr>))))))"

definition reject_batch_item ::
  "env \<Rightarrow> batch_item \<Rightarrow> world \<times> rejected_item list \<Rightarrow> world \<times> rejected_item list" where
  "reject_batch_item E item acc =
     (case acc of (w, rejected_items) \<Rightarrow>
        let sku = item_sku item;
            page = (if truthy (item_notion_page_id item) then
                      Some (the (item_notion_page_id item)) else None);
            w1 = (case page of None \<Rightarrow> w
                  | Some p \<Rightarrow> emit (UpdatePage p ''rejected'' '''') w)
        in case (case page of None \<Rightarrow> None
                 | Some p \<Rightarrow> update_reorder_status E p ''rejected'' '''') of
             Some e \<Rightarrow> (log_error e w1, rejected_items)
           | None \<Rightarrow>
              (let w2 = emit (UpdateSheet sku ''rejected'' '''') w1
               in case update_inventory_status E sku ''rejected'' '''' of
                    Some e \<Rightarrow> (log_error e w2, rejected_items)
                  | None \<Rightarrow>
                      (w2, rejected_items @ [\<lparr>rj_sku = sku, rj_quantity = item_quantity item,
                         rj_vendor = item_vendor item, rj_cost = item_total_cost item\<rparr>])))"

fun reject_batch_items ::
  "env \<Rightarrow> batch_item list \<Rightarrow> world \<times> rejected_item list \<Rightarrow> world \<times> rejected_item list" where
  "reject_batch_items E [] acc = acc"
| "reject_batch_items E (item # items) acc =
     reject_batch_items E items (reject_batch_item E item acc)"

definition reject_batch_action ::
  "env \<Rightarrow> int \<Rightarrow> world \<Rightarrow> token \<Rightarrow> string \<Rightarrow> world \<times> response" where
  "reject_batch_action E now w tok secret =
     (if secret \<noteq> webhook_secret E then
        (w, \<lparr>status_code = 200, body = ErrorHtml ''Invalid webhook secret''\<rparr>)
      else
        case global_manager ''pending_actions'' w of
          Inl e \<Rightarrow>
            (w, \<lparr>status_code = 200,
                 body = ErrorHtml (''Error processing batch rejection: '' @ exn_message e)\<rparr>)
        | Inr mgr \<Rightarrow>
           (let w1 = emit (StoreRead tok) w in
            case get_pending_action mgr now tok of
              None \<Rightarrow>
                (w1, \<lparr>status_code = 200,
                      body = ErrorHtml ''Batch rejection token not found or expired''\<rparr>)
            | Some action \<Rightarrow>
                if pa_action_type action \<noteq> ''batch_reorder'' then
                  (w1, \<lparr>status_code = 200,
                        body = ErrorHtml ''Invalid action type for batch rejection''\<rparr>)
                else
                  (case init_batch_connectors E of
                     Some e \<Rightarrow>
                       (w1, \<lparr>status_code = 200,
                             body = ErrorHtml (''Error processing batch rejection: '' @ exn_message e)\<rparr>)
                   | None \<Rightarrow>
                      (case reject_batch_items E (action_items action) (w1, []) of
                         (w2, rejected_items) \<Rightarrow>
                           (let w3 = set_status tok ''rejected'' w2;
                                total_cost = sum_list (map item_total_cost (action_items action))
                            in (w3, \<lparr>status_code = 200,
                                     body = BatchRejectionHtml rejected_items total_cost\<rparr>))))))"

section \<open>Reorder policy (src/policies/reorder_policy.py)\<close>

text \<open>
  A vendor is a dictionary; \<open>name\<close> is read with \<open>best_vendor['name']\<close> and is part of
  every vendor the docstring admits, the other keys are read with \<open>.get\<close> or tested with
  \<open>in\<close>. An inventory item has \<open>sku\<close> and \<open>on_hand\<close>; \<open>reorder_point\<close> and
  \<open>reorder_quantity\<close> are read with \<open>.get\<close>.
\<close>

record cost_breakdown =
  cb_purchase_cost :: real
  cb_ordering_cost :: real
  cb_holding_cost :: real

record vendor =
  v_name :: string
  v_vendor_id :: "string option"
  v_vendor_name :: "string option"
  v_price_per_unit :: "real option"
  v_unit_cost :: "real option"
  v_holding_cost_percentage :: "real option"
  v_order_cost :: "real option"
  v_lead_time :: "int option"
  v_eoq :: "real option"
  v_total_annual_cost :: "real option"
  v_total_cost :: "real option"
  v_cost_breakdown :: "cost_breakdown option"

record inventory_item =
  inv_sku :: string
  inv_on_hand :: int
  inv_reorder_point :: "int option"
  inv_reorder_quantity :: "int option"

record transaction =
  tx_date :: int
  tx_sku :: string
  tx_quantity :: int

text \<open>A float that may be \<open>float('inf')\<close>.\<close>

datatype xreal = Fin real | PInf

fun xreal_le :: "xreal \<Rightarrow> real \<Rightarrow> bool" where
  "xreal_le (Fin x) y = (x \<le> y)"
| "xreal_le PInf y = False"

fun less_xreal :: "real \<Rightarrow> xreal \<Rightarrow> bool" where
  "less_xreal x (Fin y) = (x < y)"
| "less_xreal x PInf = True"

text \<open>
  \<open>src.models.forecast\<close> and \<open>src.policies.eoq_optimizer\<close> are imported by the policy
  but are not among the sources: \<open>compute_daily_average\<close> and \<open>select_best_vendor\<close>
  are parameters of the model.
\<close>

record forecast_deps =
  compute_daily_average :: "transaction list \<Rightarrow> string \<Rightarrow> real"
  select_best_vendor :: "vendor list \<Rightarrow> real \<Rightarrow> vendor option"

text \<open>
  Modelled from the spec: \<open>estimate_days_until_stockout\<close> of the missing module
  \<open>src.models.forecast\<close>. The spec: if the daily average is \<open>\<le> 0\<close> the result is
  \<open>+infinity\<close>, otherwise \<open>onHand / dailyAverage\<close>.
\<close>

definition estimate_days_until_stockout :: "int \<Rightarrow> real \<Rightarrow> xreal" where
  "estimate_days_until_stockout on_hand avg_daily =
     (if avg_daily \<le> 0 then PInf else Fin (real_of_int on_hand / avg_daily))"

record reorder_policy =
  safety_margin_days :: int
  min_order_qty :: int

datatype urgency = URGENT | HIGH | MEDIUM

datatype reason =
    StockoutPredicted xreal
  | StockoutWithinLeadTime xreal
  | BelowReorderPoint

text \<open>
  The evidence summary is a formatted sentence; the model keeps the values the sentence
  interpolates, in the order of the format string.
\<close>

datatype evidence_summary =
    NoValidVendors string
  | ReorderSummary urgency string reason int real real string "real option" real
  | NoActionSummary string int xreal real

record cost_savings =
  cs_savings_amount :: real
  cs_savings_percentage :: real
  cs_vs_vendor :: "string option"

record decision_factors =
  df_current_stock :: int
  df_avg_daily_usage :: real
  df_annual_demand :: real
  df_days_until_stockout :: xreal
  df_lead_time_days :: int
  df_safety_margin_days :: int
  df_reorder_threshold_days :: int
  df_reorder_point :: int
  df_target_stock_level :: real
  df_eoq :: real
  df_stockout_risk :: bool
  df_below_reorder_point :: bool

datatype factors = FactorsError string | Factors decision_factors

record decision =
  d_sku :: string
  d_needs_reorder :: bool
  d_vendor :: "string option"
  d_qty :: real
  d_eoq :: real
  d_total_cost :: real
  d_stockout_date :: "int option"
  d_evidence_summary :: evidence_summary
  d_cost_savings :: cost_savings
  d_decision_factors :: factors

text \<open>\<open>int(x)\<close> truncates towards zero; \<open>round(x, n)\<close> rounds half to even.\<close>

definition py_int :: "real \<Rightarrow> int" where
  "py_int x = (if 0 \<le> x then \<lfloor>x\<rfloor> else \<lceil>x\<rceil>)"

definition round_half_even :: "real \<Rightarrow> int" where
  "round_half_even y =
     (let f = \<lfloor>y\<rfloor>; r = y - of_int f
      in if r < 1 / 2 then f else if 1 / 2 < r then f + 1
         else if even f then f else f + 1)"

definition py_round :: "real \<Rightarrow> nat \<Rightarrow> real" where
  "py_round x n = of_int (round_half_even (x * 10 ^ n)) / 10 ^ n"

fun py_round_x :: "xreal \<Rightarrow> nat \<Rightarrow> xreal" where
  "py_round_x (Fin x) n = Fin (py_round x n)"
| "py_round_x PInf n = PInf"

text \<open>
  The clock counts microseconds from 0001-01-01T00:00; the calendar date of an instant
  is its day number, which \<open>strftime('%Y-%m-%d')\<close> prints injectively. A
  \<open>timedelta\<close> holds at most 999999999 days and a \<open>datetime\<close> ends with year 9999
  (day number 3652058); beyond either limit Python raises \<open>OverflowError\<close>.
\<close>

definition usec_per_day :: int where
  "usec_per_day = 86400000000"

definition max_day :: int where
  "max_day = 3652058"

definition day_of :: "int \<Rightarrow> int" where
  "day_of now = now div usec_per_day"

definition stockout_date_of :: "int \<Rightarrow> xreal \<Rightarrow> exn + int option" where
  "stockout_date_of now days_until_stockout =
     (case days_until_stockout of
        PInf \<Rightarrow> Inr None
      | Fin d \<Rightarrow>
          let k = py_int d in
          if 999999999 < \<bar>k\<bar> then Inl (OverflowError ''days must have magnitude <= 999999999'')
          else if day_of now + k < 0 \<or> max_day < day_of now + k
               then Inl (OverflowError ''date value out of range'')
          else Inr (Some (day_of now + k)))"

text \<open>The fallback loop over the vendors: the first vendor of strictly lowest price.\<close>

fun select_fallback_vendor ::
  "vendor list \<Rightarrow> vendor option \<times> xreal \<Rightarrow> vendor option \<times> xreal" where
  "select_fallback_vendor [] acc = acc"
| "select_fallback_vendor (vendor # vendors) (fallback_vendor, lowest_cost) =
     select_fallback_vendor vendors
       (case v_price_per_unit vendor of
          None \<Rightarrow> (fallback_vendor, lowest_cost)
        | Some unit_cost \<Rightarrow>
            if less_xreal unit_cost lowest_cost then (Some vendor, Fin unit_cost)
            else (fallback_vendor, lowest_cost))"

definition real_default :: "real option \<Rightarrow> real \<Rightarrow> real" where
  "real_default v d = (case v of None \<Rightarrow> d | Some x \<Rightarrow> x)"

definition int_default :: "int option \<Rightarrow> int \<Rightarrow> int" where
  "int_default v d = (case v of None \<Rightarrow> d | Some x \<Rightarrow> x)"

definition calculate_cost_savings :: "vendor \<Rightarrow> real \<Rightarrow> cost_savings" where
  "calculate_cost_savings best_vendor annual_demand =
     \<lparr>cs_savings_amount = 0, cs_savings_percentage = 0, cs_vs_vendor = None\<rparr>"

definition generate_evidence_summary ::
  "reorder_policy \<Rightarrow> string \<Rightarrow> int \<Rightarrow> real \<Rightarrow> xreal \<Rightarrow> vendor \<Rightarrow> bool \<Rightarrow> real
     \<Rightarrow> evidence_summary" where
  "generate_evidence_summary P sku on_hand avg_daily days_until_stockout best_vendor
       needs_reorder recommended_qty =
     (if needs_reorder then
        (let (urgency, reason) =
               (if xreal_le days_until_stockout (of_int (safety_margin_days P))
                  then (URGENT, StockoutPredicted days_until_stockout)
                else if xreal_le days_until_stockout
                          (of_int (int_default (v_lead_time best_vendor) 7 + safety_margin_days P))
                  then (HIGH, StockoutWithinLeadTime days_until_stockout)
                else (MEDIUM, BelowReorderPoint))
         in ReorderSummary urgency sku reason on_hand avg_daily recommended_qty
              (v_name best_vendor) (v_eoq best_vendor)
              (real_default (v_total_cost best_vendor) 0))
      else NoActionSummary sku on_hand days_until_stockout avg_daily)"

definition fallback_for_zero_demand ::
  "reorder_policy \<Rightarrow> inventory_item \<Rightarrow> vendor list \<Rightarrow> vendor option" where
  "fallback_for_zero_demand P inventory_item vendors =
     (case fst (select_fallback_vendor vendors (None, PInf)) of
        None \<Rightarrow> None
      | Some fallback_vendor \<Rightarrow>
          let eoq = max (min_order_qty P) (int_default (inv_reorder_quantity inventory_item) 10);
              unit_cost = real_default (v_price_per_unit fallback_vendor) 0;
              purchase_cost = of_int eoq * unit_cost
          in Some (fallback_vendor
                \<lparr>v_eoq := Some (of_int eoq),
                 v_total_annual_cost := Some purchase_cost,
                 v_cost_breakdown := Some \<lparr>cb_purchase_cost = purchase_cost,
                    cb_ordering_cost = 0, cb_holding_cost = 0\<rparr>\<rparr>))"

definition evaluate_reorder_need ::
  "forecast_deps \<Rightarrow> reorder_policy \<Rightarrow> int \<Rightarrow> inventory_item \<Rightarrow> transaction list
     \<Rightarrow> vendor list \<Rightarrow> int \<Rightarrow> exn + decision" where
  "evaluate_reorder_need D P now inventory_item transactions vendors target_stock_days =
     (let sku = inv_sku inventory_item;
          on_hand = inv_on_hand inventory_item;
          reorder_point = int_default (inv_reorder_point inventory_item) 0;
          avg_daily = compute_daily_average D transactions sku;
          annual_demand = avg_daily * 365
      in
      if vendors = [] then Inl (ValueError ''No vendors provided for evaluation'')
      else
        let best0 = select_best_vendor D vendors annual_demand;
            best = (if best0 = None \<and> avg_daily \<le> 0 \<and> on_hand \<le> reorder_point
                    then fallback_for_zero_demand P inventory_item vendors
                    else best0)
        in
        case best of
          None \<Rightarrow>
            Inr \<lparr>d_sku = sku, d_needs_reorder = False, d_vendor = None, d_qty = 0,
                 d_eoq = 0, d_total_cost = 0, d_stockout_date = None,
                 d_evidence_summary = NoValidVendors sku,
                 d_cost_savings = \<lparr>cs_savings_amount = 0, cs_savings_percentage = 0,
                                    cs_vs_vendor = None\<rparr>,
                 d_decision_factors = FactorsError ''No valid vendors found''\<rparr>
        | Some best_vendor \<Rightarrow>
           (let total_cost = real_default (v_total_annual_cost best_vendor) 0;
                days_until_stockout = estimate_days_until_stockout on_hand avg_daily
            in
            case stockout_date_of now days_until_stockout of
              Inl e \<Rightarrow> Inl e
            | Inr stockout_date \<Rightarrow>
               (let lead_time = int_default (v_lead_time best_vendor) 7;
                    reorder_threshold_days = lead_time + safety_margin_days P;
                    needs_reorder =
                      (if avg_daily \<le> 0 then on_hand \<le> reorder_point
                       else (xreal_le days_until_stockout (of_int reorder_threshold_days)
                             \<or> on_hand \<le> reorder_point));
                    target_stock = avg_daily * of_int target_stock_days;
                    eoq = real_default (v_eoq best_vendor) 0;
                    recommended_qty =
                      (if needs_reorder then
                         (let qty_to_target = max 0 (target_stock - of_int on_hand)
                          in max (max eoq (of_int (min_order_qty P))) qty_to_target)
                       else 0);
                    cost_savings = calculate_cost_savings best_vendor annual_demand;
                    evidence_summary =
                      generate_evidence_summary P sku on_hand avg_daily days_until_stockout
                        best_vendor needs_reorder recommended_qty;
                    decision_factors =
                      \<lparr>df_current_stock = on_hand,
                       df_avg_daily_usage = py_round avg_daily 2,
                       df_annual_demand = py_round annual_demand 2,
                       df_days_until_stockout = py_round_x days_until_stockout 1,
                       df_lead_time_days = lead_time,
                       df_safety_margin_days = safety_margin_days P,
                       df_reorder_threshold_days = reorder_threshold_days,
                       df_reorder_point = reorder_point,
                       df_target_stock_level = py_round target_stock 1,
                       df_eoq = eoq,
                       df_stockout_risk =
                         xreal_le days_until_stockout (of_int reorder_threshold_days),
                       df_below_reorder_point = (on_hand \<le> reorder_point)\<rparr>
                in Inr \<lparr>d_sku = sku, d_needs_reorder = needs_reorder,
                        d_vendor = Some (v_name best_vendor), d_qty = recommended_qty,
                        d_eoq = eoq,
                        d_total_cost = real_default (v_total_annual_cost best_vendor) 0,
                        d_stockout_date = stockout_date,
                        d_evidence_summary = evidence_summary,
                        d_cost_savings = cost_savings,
                        d_decision_factors = Factors decision_factors\<rparr>)))"

section \<open>Orchestrator (src/agent_main.py, class InventoryAgent)\<close>

record sku_data =
  sd_sku :: string
  sd_on_hand :: int
  sd_reorder_point :: int
  sd_reorder_quantity :: int

record rationale =
  ra_paragraph :: string
  ra_bullets :: "string list"

record approval_request =
  rq_sku :: string
  rq_reorder_decision :: decision
  rq_rationale :: rationale
  rq_notion_page_id :: "string option"
  rq_reason :: string

record agent =
  dry_run :: bool
  auto_order_threshold :: real
  vendor_trust_threshold :: real

record results =
  processed_skus :: nat
  reorders_recommended :: nat
  auto_orders_placed :: nat
  approval_emails_sent :: nat
  batch_approvals_pending :: nat
  errors :: "string list"

record agent_state =
  as_manager :: pending_manager
  as_results :: results
  as_trace :: "event list"

text \<open>
  The collaborators of the agent: the forecast and optimiser modules, the random sample
  that \<open>_get_vendor_data\<close> draws from its vendor table, the rationale generator, the
  page creation (which answers a page id, possibly empty or none), the supplier and the
  fresh \<open>uuid4\<close> of the batch.
\<close>

record agent_env =
  ae_deps :: forecast_deps
  ae_random_sample :: "vendor list \<Rightarrow> vendor list"
  ae_generate_rationale :: "string \<Rightarrow> decision \<Rightarrow> exn + rationale"
  ae_update_notion_page :: "string \<Rightarrow> decision \<Rightarrow> rationale \<Rightarrow> string option"
  ae_place_order :: "string \<Rightarrow> string \<Rightarrow> real \<Rightarrow> exn + order_result"
  ae_batch_token :: token

definition default_policy :: reorder_policy where
  "default_policy = \<lparr>safety_margin_days = 7, min_order_qty = 1\<rparr>"

definition mk_vendor :: "string \<Rightarrow> string \<Rightarrow> real \<Rightarrow> real \<Rightarrow> real \<Rightarrow> int \<Rightarrow> vendor" where
  "mk_vendor vid nm price holding order_cost lead =
     \<lparr>v_name = nm, v_vendor_id = Some vid, v_vendor_name = Some nm,
      v_price_per_unit = Some price, v_unit_cost = Some price,
      v_holding_cost_percentage = Some holding, v_order_cost = Some order_cost,
      v_lead_time = Some lead, v_eoq = None, v_total_annual_cost = None,
      v_total_cost = None, v_cost_breakdown = None\<rparr>"

definition all_vendors :: "vendor list" where
  "all_vendors =
     [mk_vendor ''V001'' ''Acme Supplies'' 12.5 0.2 50 7,
      mk_vendor ''V002'' ''Global Parts'' 15.8 0.25 75 10,
      mk_vendor ''V003'' ''Quick Ship'' 13.2 0.15 30 3,
      mk_vendor ''V004'' ''Industrial Supply Co'' 11.25 0.22 65 8,
      mk_vendor ''V005'' ''Premium Parts Ltd'' 16.75 0.18 40 5,
      mk_vendor ''V006'' ''Budget Components'' 9.95 0.3 85 14,
      mk_vendor ''V007'' ''Express Logistics'' 14.6 0.12 25 2,
      mk_vendor ''V008'' ''Reliable Vendors Inc'' 10.85 0.28 55 12]"

definition get_vendor_data :: "agent_env \<Rightarrow> vendor list" where
  "get_vendor_data E = ae_random_sample E all_vendors"

definition lower_char :: "char \<Rightarrow> char" where
  "lower_char c =
     (let n = (of_char c :: nat) in if 65 \<le> n \<and> n \<le> 90 then char_of (n + 32) else c)"

definition get_vendor_trust_score :: "string \<Rightarrow> real" where
  "get_vendor_trust_score vendor =
     (let v = map lower_char vendor
      in if v = ''vendor_a'' then 0.95
         else if v = ''vendor_b'' then 0.85
         else if v = ''vendor_c'' then 0.75
         else 0.8)"

definition default_rationale :: "string \<Rightarrow> rationale" where
  "default_rationale sku =
     \<lparr>ra_paragraph = ''Reorder recommended for '' @ sku @ '' based on inventory analysis.'',
      ra_bullets = [''Automated decision based on forecasting models'']\<rparr>"

text \<open>
  \<open>_place_auto_order\<close>: success needs an order id in the supplier's answer; an
  exception of the supplier is caught and counts as failure.
\<close>

definition place_auto_order :: "agent_env \<Rightarrow> string \<Rightarrow> decision \<Rightarrow> bool" where
  "place_auto_order E sku reorder_decision =
     (case ae_place_order E (get_default (d_vendor reorder_decision) []) sku
             (d_qty reorder_decision) of
        Inl e \<Rightarrow> False
      | Inr order_result \<Rightarrow> truthy (or_order_id order_result))"

definition bump_reorders :: "agent_state \<Rightarrow> agent_state" where
  "bump_reorders st =
     st\<lparr>as_results := (as_results st)\<lparr>reorders_recommended :=
           reorders_recommended (as_results st) + 1\<rparr>\<rparr>"

definition bump_auto_orders :: "agent_state \<Rightarrow> agent_state" where
  "bump_auto_orders st =
     st\<lparr>as_results := (as_results st)\<lparr>auto_orders_placed :=
           auto_orders_placed (as_results st) + 1\<rparr>\<rparr>"

definition bump_processed :: "agent_state \<Rightarrow> agent_state" where
  "bump_processed st =
     st\<lparr>as_results := (as_results st)\<lparr>processed_skus :=
           processed_skus (as_results st) + 1\<rparr>\<rparr>"

definition add_error :: "string \<Rightarrow> agent_state \<Rightarrow> agent_state" where
  "add_error msg st =
     st\<lparr>as_results := (as_results st)\<lparr>errors := errors (as_results st) @ [msg]\<rparr>\<rparr>"

definition process_sku ::
  "agent \<Rightarrow> agent_env \<Rightarrow> int \<Rightarrow> sku_data \<Rightarrow> transaction list \<Rightarrow> agent_state
     \<Rightarrow> agent_state \<times> (exn + approval_request option)" where
  "process_sku A E now sku_data transaction_data st =
     (let sku = sd_sku sku_data;
          sku_transactions = filter (\<lambda>t. tx_sku t = sku) transaction_data;
          inventory_item = \<lparr>inv_sku = sku, inv_on_hand = sd_on_hand sku_data,
                            inv_reorder_point = Some (sd_reorder_point sku_data),
                            inv_reorder_quantity = None\<rparr>;
          vendors = get_vendor_data E
      in case evaluate_reorder_need (ae_deps E) default_policy now inventory_item
                sku_transactions vendors 30 of
           Inl e \<Rightarrow> (st, Inl e)
         | Inr reorder_decision \<Rightarrow>
             if \<not> d_needs_reorder reorder_decision then (st, Inr None)
             else
               (let st1 = bump_reorders st;
                    rationale = (case ae_generate_rationale E sku reorder_decision of
                                   Inl e \<Rightarrow> default_rationale sku
                                 | Inr r \<Rightarrow> r);
                    notion_page_id = ae_update_notion_page E sku reorder_decision rationale;
                    total_cost = d_total_cost reorder_decision
                in case d_vendor reorder_decision of
                     None \<Rightarrow> (st1, Inl (Raised ''NoneType object has no attribute lower''))
                   | Some vendor \<Rightarrow>
                      (let vendor_trust_score = get_vendor_trust_score vendor;
                           should_auto_order =
                             (total_cost < auto_order_threshold A
                              \<and> vendor_trust_threshold A \<le> vendor_trust_score)
                       in if should_auto_order \<and> \<not> dry_run A then
                            (let st2 = st1\<lparr>as_trace := as_trace st1 @
                                         [PlaceOrder vendor sku (d_qty reorder_decision)]\<rparr>
                             in if place_auto_order E sku reorder_decision
                                then (bump_auto_orders st2, Inr None)
                                else (st2, Inr (Some
                                        \<lparr>rq_sku = sku, rq_reorder_decision = reorder_decision,
                                         rq_rationale = rationale,
                                         rq_notion_page_id = notion_page_id,
                                         rq_reason = ''auto_order_failed''\<rparr>)))
                          else
                            (st1, Inr (Some
                               \<lparr>rq_sku = sku, rq_reorder_decision = reorder_decision,
                                rq_rationale = rationale,
                                rq_notion_page_id = notion_page_id,
                                rq_reason = (if dry_run A then ''dry_run''
                                             else ''cost or trust threshold'')\<rparr>)))))"

text \<open>
  The loop of \<open>run_cycle\<close> over the inventory: an exception of one SKU is caught and
  recorded; a returned request joins the pending approvals.
\<close>

fun process_all ::
  "agent \<Rightarrow> agent_env \<Rightarrow> int \<Rightarrow> sku_data list \<Rightarrow> transaction list
     \<Rightarrow> agent_state \<times> approval_request list \<Rightarrow> agent_state \<times> approval_request list" where
  "process_all A E now [] transaction_data acc = acc"
| "process_all A E now (sku_data # rest) transaction_data (st, pending_approvals) =
     process_all A E now rest transaction_data
       (case process_sku A E now sku_data transaction_data st of
          (st', Inl e) \<Rightarrow>
            (add_error (''Error processing SKU '' @ sd_sku sku_data @ '': '' @ exn_message e) st',
             pending_approvals)
        | (st', Inr None) \<Rightarrow> (bump_processed st', pending_approvals)
        | (st', Inr (Some approval_request)) \<Rightarrow>
            (bump_processed st', pending_approvals @ [approval_request]))"

fun show_nat :: "nat \<Rightarrow> string" where
  "show_nat n =
     (if n < 10 then [char_of (48 + n)]
      else show_nat (n div 10) @ [char_of (48 + n mod 10)])"

definition batch_item_of :: "approval_request \<Rightarrow> batch_item" where
  "batch_item_of req =
     \<lparr>item_sku = rq_sku req,
      item_vendor = get_default (d_vendor (rq_reorder_decision req)) [],
      item_quantity = d_qty (rq_reorder_decision req),
      item_total_cost = d_total_cost (rq_reorder_decision req),
      item_notion_page_id = rq_notion_page_id req\<rparr>"

definition batch_action_data :: "approval_request list \<Rightarrow> action_data" where
  "batch_action_data approval_requests =
     \<lparr>ad_sku = ''BATCH'', ad_action_type = ''batch_reorder'', ad_vendor = ''MULTIPLE'',
      ad_quantity = sum_list (map (\<lambda>req. d_qty (rq_reorder_decision req)) approval_requests),
      ad_total_cost =
        sum_list (map (\<lambda>req. d_total_cost (rq_reorder_decision req)) approval_requests),
      ad_rationale = Some (''Batch approval for '' @ show_nat (length approval_requests)
                           @ '' items''),
      ad_notion_page_id = None,
      ad_items = Some (map batch_item_of approval_requests)\<rparr>"

text \<open>
  \<open>_send_batch_approval_email\<close> stores the batch under a fresh token and then hands the
  mail to the connector; no path of it returns a message id.
\<close>

definition send_batch_approval_email ::
  "agent_env \<Rightarrow> int \<Rightarrow> approval_request list \<Rightarrow> agent_state \<Rightarrow> agent_state \<times> string option" where
  "send_batch_approval_email E now approval_requests st =
     (if approval_requests = [] then (st, None)
      else
        case store_pending_action (as_manager st) now (ae_batch_token E)
               (batch_action_data approval_requests) of
          (m, stored) \<Rightarrow>
            if \<not> stored then (st, None)
            else (st\<lparr>as_manager := m\<rparr>, None))"

text \<open>\<open>_fetch_transaction_data\<close> answers the empty list on its only reachable path.\<close>

definition fetch_transaction_data :: "transaction list" where
  "fetch_transaction_data = []"

definition fresh_results :: results where
  "fresh_results = \<lparr>processed_skus = 0, reorders_recommended = 0, auto_orders_placed = 0,
     approval_emails_sent = 0, batch_approvals_pending = 0, errors = []\<rparr>"

definition run_cycle ::
  "agent \<Rightarrow> agent_env \<Rightarrow> int \<Rightarrow> sku_data list \<Rightarrow> pending_manager \<Rightarrow> agent_state" where
  "run_cycle A E now inventory_data mgr =
     (let st0 = \<lparr>as_manager = mgr, as_results = fresh_results, as_trace = []\<rparr>;
          transaction_data = fetch_transaction_data
      in if inventory_data = [] then st0
         else
           case process_all A E now inventory_data transaction_data (st0, []) of
             (st1, pending_approvals) \<Rightarrow>
               if pending_approvals \<noteq> [] then
                 (case send_batch_approval_email E now pending_approvals st1 of
                    (st2, batch_message_id) \<Rightarrow>
                      (case batch_message_id of
                         Some mid \<Rightarrow>
                           st2\<lparr>as_results := (as_results st2)
                                 \<lparr>approval_emails_sent := 1,
                                  batch_approvals_pending := length pending_approvals\<rparr>\<rparr>
                       | None \<Rightarrow> add_error ''Failed to send batch approval email'' st2))
               else st1)"

declare show_nat.simps [simp del]

text \<open>The urgency tier that a summary names; a summary without a reorder names none.\<close>

fun urgency_of :: "evidence_summary \<Rightarrow> urgency option" where
  "urgency_of (ReorderSummary u sku r on_hand avg qty vendor eoq cost) = Some u"
| "urgency_of (NoValidVendors sku) = None"
| "urgency_of (NoActionSummary sku on_hand days avg) = None"

section \<open>Concrete inputs\<close>

text \<open>
  A batch of three line items, stored through \<open>store_pending_action\<close> on the JSON
  backend, and collaborators whose supplier raises for the second item.
\<close>

definition scenario_items :: "batch_item list" where
  "scenario_items =
     [\<lparr>item_sku = ''SKU-1'', item_vendor = ''Acme Supplies'', item_quantity = 10,
       item_total_cost = 125, item_notion_page_id = None\<rparr>,
      \<lparr>item_sku = ''SKU-2'', item_vendor = ''Quick Ship'', item_quantity = 10,
       item_total_cost = 132, item_notion_page_id = None\<rparr>,
      \<lparr>item_sku = ''SKU-3'', item_vendor = ''Acme Supplies'', item_quantity = 10,
       item_total_cost = 125, item_notion_page_id = None\<rparr>]"

definition scenario_batch :: action_data where
  "scenario_batch =
     \<lparr>ad_sku = ''BATCH'', ad_action_type = ''batch_reorder'', ad_vendor = ''MULTIPLE'',
      ad_quantity = 30, ad_total_cost = 382,
      ad_rationale = Some ''Batch approval for 3 items'', ad_notion_page_id = None,
      ad_items = Some scenario_items\<rparr>"

definition json_manager :: pending_manager where
  "json_manager = \<lparr>use_sqlite = False, entries = Map.empty, io_error = False\<rparr>"

definition scenario_world :: world where
  "scenario_world =
     \<lparr>manager = fst (store_pending_action json_manager 0 ''batch-token'' scenario_batch),
      trace = [], logged_errors = [], recompute_tasks = []\<rparr>"

definition scenario_env :: env where
  "scenario_env =
     \<lparr>webhook_secret = ''s3cret'',
      place_order = (\<lambda>vendor sku qty.
         if sku = ''SKU-2'' then Inl (Raised ''supplier unavailable'')
         else Inr \<lparr>or_success = True, or_order_id = Some (''ORD-'' @ sku),
                   or_delivery_date = None, or_error = None\<rparr>),
      update_page_properties = (\<lambda>page status. None),
      update_reorder_status = (\<lambda>page status order_id. None),
      update_inventory_status = (\<lambda>sku status order_id. None),
      write_recompute_file = None,
      init_batch_connectors = None\<rparr>"

text \<open>
  A single-item action on the SQLite backend, for the single-item endpoints.
\<close>

definition single_action :: action_data where
  "single_action =
     \<lparr>ad_sku = ''WIDGET-001'', ad_action_type = ''reorder'', ad_vendor = ''Acme Supplies'',
      ad_quantity = 10, ad_total_cost = 125, ad_rationale = None,
      ad_notion_page_id = Some ''page-1'', ad_items = None\<rparr>"

definition sqlite_manager :: pending_manager where
  "sqlite_manager = \<lparr>use_sqlite = True, entries = Map.empty, io_error = False\<rparr>"

definition single_world :: world where
  "single_world =
     \<lparr>manager = fst (store_pending_action sqlite_manager 0 ''tok-1'' single_action),
      trace = [], logged_errors = [], recompute_tasks = []\<rparr>"

text \<open>
  Policy inputs: two stand-ins for the absent forecast and optimiser modules, a vendor
  that carries no price, and two items.
\<close>

definition zero_demand_deps :: forecast_deps where
  "zero_demand_deps =
     \<lparr>compute_daily_average = (\<lambda>transactions sku. 0),
      select_best_vendor = (\<lambda>vendors annual_demand. None)\<rparr>"

definition steady_demand_deps :: forecast_deps where
  "steady_demand_deps =
     \<lparr>compute_daily_average = (\<lambda>transactions sku. 3),
      select_best_vendor = (\<lambda>vendors annual_demand.
         case vendors of [] \<Rightarrow> None
         | v # vs \<Rightarrow> Some (v\<lparr>v_eoq := Some 100, v_total_annual_cost := Some 14000\<rparr>))\<rparr>"

definition unpriced_vendor :: vendor where
  "unpriced_vendor =
     \<lparr>v_name = ''Acme Supplies'', v_vendor_id = None, v_vendor_name = None,
      v_price_per_unit = None, v_unit_cost = None,
      v_holding_cost_percentage = None, v_order_cost = Some 50,
      v_lead_time = Some 7, v_eoq = None, v_total_annual_cost = None,
      v_total_cost = None, v_cost_breakdown = None\<rparr>"

definition low_stock_item :: inventory_item where
  "low_stock_item =
     \<lparr>inv_sku = ''WIDGET-001'', inv_on_hand = 3, inv_reorder_point = Some 10,
      inv_reorder_quantity = None\<rparr>"

definition widget_item :: inventory_item where
  "widget_item =
     \<lparr>inv_sku = ''WIDGET-001'', inv_on_hand = 25, inv_reorder_point = Some 50,
      inv_reorder_quantity = None\<rparr>"

definition dry_agent :: agent where
  "dry_agent = \<lparr>dry_run = True, auto_order_threshold = 500, vendor_trust_threshold = 0.8\<rparr>"

definition scenario_agent_env :: agent_env where
  "scenario_agent_env =
     \<lparr>ae_deps = zero_demand_deps,
      ae_random_sample = take 3,
      ae_generate_rationale = (\<lambda>sku d. Inl (Raised ''no model'')),
      ae_update_notion_page = (\<lambda>sku d r. Some ''page-1''),
      ae_place_order = (\<lambda>vendor sku qty. Inl (Raised ''supplier unavailable'')),
      ae_batch_token = ''batch-token''\<rparr>"

definition scenario_inventory :: "sku_data list" where
  "scenario_inventory =
     [\<lparr>sd_sku = ''WIDGET-001'', sd_on_hand = 3, sd_reorder_point = 10, sd_reorder_quantity = 20\<rparr>,
      \<lparr>sd_sku = ''GADGET-002'', sd_on_hand = 100, sd_reorder_point = 30, sd_reorder_quantity = 20\<rparr>]"

definition single_stored :: pending_action where
  "single_stored =
     \<lparr>pa_sku = ''WIDGET-001'', pa_action_type = ''reorder'', pa_vendor = ''Acme Supplies'',
      pa_quantity = 10, pa_total_cost = 125, pa_rationale = Some [],
      pa_notion_page_id = Some ''page-1'', pa_items = None,
      pa_expires_at = hours_24, pa_status = ''pending''\<rparr>"

definition failing_env :: env where
  "failing_env =
     scenario_env\<lparr>place_order := (\<lambda>vendor sku qty. Inl (Raised ''supplier unavailable'')),
                  update_page_properties := (\<lambda>page status. Some (Raised ''no such method'')),
                  update_inventory_status := (\<lambda>sku status order_id. Some (Raised ''sheet offline''))\<rparr>"

definition broken_world :: world where
  "broken_world = single_world\<lparr>manager := (manager single_world)\<lparr>io_error := True\<rparr>\<rparr>"

text \<open>
  The invariant of the fallback loop over the vendors seen so far: nothing chosen and no
  priced vendor seen, or the chosen vendor is a seen one of least price.
\<close>

definition fallback_inv :: "vendor set \<Rightarrow> vendor option \<times> xreal \<Rightarrow> bool" where
  "fallback_inv S acc =
     (case acc of (fb, lo) \<Rightarrow>
       (fb = None \<and> lo = PInf \<and> (\<forall>w\<in>S. v_price_per_unit w = None)) \<or>
       (\<exists>v p. fb = Some v \<and> lo = Fin p \<and> v \<in> S \<and> v_price_per_unit v = Some p
           \<and> (\<forall>w\<in>S. \<forall>q. v_price_per_unit w = Some q \<longrightarrow> p \<le> q)))"

text \<open>
  A request that stems from a reorder: some SKU of the inventory was evaluated by the
  policy, as \<open>_process_sku\<close> calls it, to the decision the request carries, and that
  decision has \<open>needs_reorder\<close>.
\<close>

definition reorder_request :: "agent_env \<Rightarrow> int \<Rightarrow> sku_data list \<Rightarrow> approval_request \<Rightarrow> bool" where
  "reorder_request E now inventory req =
     (\<exists>sd\<in>set inventory.
        evaluate_reorder_need (ae_deps E) default_policy now
          \<lparr>inv_sku = sd_sku sd, inv_on_hand = sd_on_hand sd,
           inv_reorder_point = Some (sd_reorder_point sd), inv_reorder_quantity = None\<rparr>
          [] (get_vendor_data E) 30 = Inr (rq_reorder_decision req)
        \<and> rq_sku req = sd_sku sd
        \<and> d_needs_reorder (rq_reorder_decision req))"

section \<open>Properties\<close>

subsection \<open>The store\<close>

lemma get_pending_action_SomeD:
  "get_pending_action m now tok = Some a \<Longrightarrow>
     \<not> io_error m \<and> entries m tok = Some a \<and> pa_status a = ''pending'' \<and> now < pa_expires_at a"
  by (cases "entries m tok") (auto simp: get_pending_action_def split: if_splits)

lemma update_action_status_entries:
  "entries (fst (update_action_status m tok s)) =
     (if io_error m then entries m
      else case entries m tok of None \<Rightarrow> entries m
           | Some a \<Rightarrow> (entries m)(tok \<mapsto> a\<lparr>pa_status := s\<rparr>))"
  by (cases "entries m tok") (auto simp: update_action_status_def)

lemma single_world_manager:
  "manager single_world =
     \<lparr>use_sqlite = True, entries = [''tok-1'' \<mapsto> single_stored], io_error = False\<rparr>"
  by (simp add: single_world_def store_pending_action_def sqlite_manager_def single_action_def
      single_stored_def get_default_def Let_def)

lemma single_world_active:
  "get_pending_action (manager single_world) 5 ''tok-1'' = Some single_stored"
  by (simp add: single_world_manager get_pending_action_def single_stored_def hours_24_def)

text \<open>
  C3. With a readable store, \<open>get_pending_action\<close> returns the stored action exactly
  when its status is \<open>pending\<close> and its expiry is strictly later than the current time;
  a token never stored, an action already resolved and an expired action (the boundary
  \<open>expires_at = now\<close> included) all give the same answer \<open>None\<close>.
\<close>

theorem get_pending_action_active_iff:
  assumes "\<not> io_error m"
  shows "(get_pending_action m now tok = Some a \<longleftrightarrow>
            entries m tok = Some a \<and> pa_status a = ''pending'' \<and> pa_expires_at a > now)
       \<and> (get_pending_action m now tok = None \<longleftrightarrow>
            (entries m tok = None
             \<or> (\<exists>b. entries m tok = Some b
                   \<and> (pa_status b \<noteq> ''pending'' \<or> pa_expires_at b \<le> now))))"
  using assms
  by (cases "entries m tok") (auto simp: get_pending_action_def)

theorem get_pending_action_active_iff_witness:
  "\<not> io_error (manager single_world)
   \<and> get_pending_action (manager single_world) 5 ''tok-1'' = Some single_stored
   \<and> get_pending_action (manager single_world) hours_24 ''tok-1'' = None
   \<and> get_pending_action (manager single_world) 5 ''tok-2'' = None"
proof -
  have h: "\<not> io_error (manager single_world)" by (simp add: single_world_manager)
  show ?thesis
    using h get_pending_action_active_iff [OF h, of 5 "''tok-1''" single_stored]
      get_pending_action_active_iff [OF h, of hours_24 "''tok-1''" single_stored]
      get_pending_action_active_iff [OF h, of 5 "''tok-2''" single_stored]
    by (simp add: single_world_manager single_stored_def hours_24_def)
qed




subsection \<open>The single-item endpoints\<close>

lemma trace_best_effort [simp]: "trace (best_effort e out w) = trace w @ [e]"
  by (cases out) (simp_all add: best_effort_def emit_def log_error_def)

lemma manager_best_effort [simp]: "manager (best_effort e out w) = manager w"
  by (cases out) (simp_all add: best_effort_def emit_def log_error_def)

lemma trace_emit [simp]: "trace (emit e w) = trace w @ [e]"
  by (simp add: emit_def)

lemma manager_emit [simp]: "manager (emit e w) = manager w"
  by (simp add: emit_def)

lemma trace_set_status [simp]: "trace (set_status tok s w) = trace w @ [StoreWrite tok s]"
  by (simp add: set_status_def)

lemma manager_set_status [simp]:
  "manager (set_status tok s w) = fst (update_action_status (manager w) tok s)"
  by (simp add: set_status_def)

text \<open>
  C1. A single-item approve call with the right secret on an active pending action reads
  the store, places the order, then updates the page (when the action carries a page
  id), then the sheet, then writes status \<open>approved\<close>, in this order, whatever the page
  and sheet updates do (the collaborators are arbitrary). When the order placement
  raises, nothing follows it: the store is unchanged, the answer has status 500 and the
  action is still returned as pending by \<open>get_pending_action\<close>.
\<close>

theorem approve_action_effect_order:
  assumes secret: "secret = webhook_secret E"
    and active: "get_pending_action (manager w) now tok = Some a"
  shows "(\<forall>e. place_order E (pa_vendor a) (pa_sku a) (pa_quantity a) = Inl e \<longrightarrow>
            trace (fst (approve_action E now w tok secret)) =
              trace w @ [StoreRead tok, PlaceOrder (pa_vendor a) (pa_sku a) (pa_quantity a)]
          \<and> manager (fst (approve_action E now w tok secret)) = manager w
          \<and> get_pending_action (manager (fst (approve_action E now w tok secret))) now tok = Some a
          \<and> status_code (snd (approve_action E now w tok secret)) = 500)
       \<and> (\<forall>r. place_order E (pa_vendor a) (pa_sku a) (pa_quantity a) = Inr r \<longrightarrow>
            trace (fst (approve_action E now w tok secret)) =
              trace w @ [StoreRead tok, PlaceOrder (pa_vendor a) (pa_sku a) (pa_quantity a)]
                @ (if truthy (pa_notion_page_id a)
                   then [UpdatePage (the (pa_notion_page_id a)) ''Ordered''
                           (get_default (or_order_id r) ''N/A'')]
                   else [])
                @ [UpdateSheet (pa_sku a) ''Ordered'' (get_default (or_order_id r) ''N/A''),
                   StoreWrite tok ''approved'']
          \<and> entries (manager (fst (approve_action E now w tok secret))) tok
               = Some (a\<lparr>pa_status := ''approved''\<rparr>)
          \<and> status_code (snd (approve_action E now w tok secret)) = 200)"
proof -
  from active have m: "\<not> io_error (manager w)" "entries (manager w) tok = Some a"
    using get_pending_action_SomeD by blast+
  show ?thesis
    using secret active m
    by (auto simp: approve_action_def global_manager_def Let_def update_action_status_entries)
qed

theorem approve_action_effect_order_witness:
  "trace (fst (approve_action scenario_env 5 single_world ''tok-1'' ''s3cret'')) =
     [StoreRead ''tok-1'', PlaceOrder ''Acme Supplies'' ''WIDGET-001'' 10,
      UpdatePage ''page-1'' ''Ordered'' ''ORD-WIDGET-001'',
      UpdateSheet ''WIDGET-001'' ''Ordered'' ''ORD-WIDGET-001'',
      StoreWrite ''tok-1'' ''approved'']
   \<and> status_code (snd (approve_action scenario_env 5 single_world ''tok-1'' ''s3cret'')) = 200
   \<and> trace (fst (approve_action failing_env 5 single_world ''tok-1'' ''s3cret'')) =
     [StoreRead ''tok-1'', PlaceOrder ''Acme Supplies'' ''WIDGET-001'' 10]
   \<and> status_code (snd (approve_action failing_env 5 single_world ''tok-1'' ''s3cret'')) = 500
   \<and> get_pending_action (manager (fst (approve_action failing_env 5 single_world ''tok-1'' ''s3cret'')))
        5 ''tok-1'' = Some single_stored"
proof -
  have s1: "''s3cret'' = webhook_secret scenario_env" by (simp add: scenario_env_def)
  have s2: "''s3cret'' = webhook_secret failing_env"
    by (simp add: failing_env_def scenario_env_def)
  have t: "trace single_world = []" by (simp add: single_world_def)
  have p1: "place_order scenario_env (pa_vendor single_stored) (pa_sku single_stored)
               (pa_quantity single_stored) =
             Inr \<lparr>or_success = True, or_order_id = Some ''ORD-WIDGET-001'',
                  or_delivery_date = None, or_error = None\<rparr>"
    by (simp add: scenario_env_def single_stored_def)
  have p2: "place_order failing_env (pa_vendor single_stored) (pa_sku single_stored)
               (pa_quantity single_stored) = Inl (Raised ''supplier unavailable'')"
    by (simp add: failing_env_def)
  note ok = approve_action_effect_order
              [OF s1 single_world_active, THEN conjunct2, rule_format, OF p1]
  note ko = approve_action_effect_order
              [OF s2 single_world_active, THEN conjunct1, rule_format, OF p2]
  show ?thesis
    using ok ko t single_world_active
    by (simp add: single_stored_def truthy_def get_default_def)
qed

text \<open>
  C10. When the storage call raises, \<open>get_pending_action\<close> answers \<open>None\<close>; a
  single-item approve or reject call with the right secret then answers with status 404,
  with the very response it gives for a token that is not in a readable store, and
  performs nothing beyond the attempted read.
\<close>

theorem read_failure_is_not_found:
  assumes "io_error (manager w)" and "secret = webhook_secret E"
  shows "get_pending_action (manager w) now tok = None
       \<and> status_code (snd (approve_action E now w tok secret)) = 404
       \<and> status_code (snd (reject_action E now w tok secret)) = 404
       \<and> snd (approve_action E now w tok secret) =
           snd (approve_action E now
                  (w\<lparr>manager := \<lparr>use_sqlite = use_sqlite (manager w), entries = Map.empty,
                                  io_error = False\<rparr>\<rparr>) tok secret)
       \<and> snd (reject_action E now w tok secret) =
           snd (reject_action E now
                  (w\<lparr>manager := \<lparr>use_sqlite = use_sqlite (manager w), entries = Map.empty,
                                  io_error = False\<rparr>\<rparr>) tok secret)
       \<and> fst (approve_action E now w tok secret) = emit (StoreRead tok) w
       \<and> fst (reject_action E now w tok secret) = emit (StoreRead tok) w"
  using assms
  by (simp add: approve_action_def reject_action_def global_manager_def
      get_pending_action_def Let_def)

theorem read_failure_is_not_found_witness:
  "io_error (manager broken_world)
   \<and> entries (manager broken_world) ''tok-1'' = Some single_stored
   \<and> get_pending_action (manager broken_world) 5 ''tok-1'' = None
   \<and> status_code (snd (approve_action scenario_env 5 broken_world ''tok-1'' ''s3cret'')) = 404
   \<and> status_code (snd (reject_action scenario_env 5 broken_world ''tok-1'' ''s3cret'')) = 404"
proof -
  have h1: "io_error (manager broken_world)" by (simp add: broken_world_def)
  have h2: "''s3cret'' = webhook_secret scenario_env" by (simp add: scenario_env_def)
  have e: "entries (manager broken_world) ''tok-1'' = Some single_stored"
    by (simp add: broken_world_def single_world_manager)
  show ?thesis
    using h1 e read_failure_is_not_found [OF h1 h2, of 5 "''tok-1''"]
    by blast
qed

subsection \<open>The batch endpoints\<close>

lemma scenario_world_entry:
  "map_option (\<lambda>a. (pa_status a, pa_action_type a, pa_items a))
     (entries (manager scenario_world) ''batch-token'')
   = Some (''pending'', ''batch_reorder'', Some scenario_items)"
  by (simp add: scenario_world_def store_pending_action_def json_manager_def
      scenario_batch_def Let_def)

lemma scenario_world_still_pending:
  "map_option pa_status (get_pending_action (manager scenario_world) 5 ''batch-token'')
     = Some ''pending''"
  by (simp add: scenario_world_def store_pending_action_def json_manager_def
      scenario_batch_def Let_def get_pending_action_def hours_24_def)

text \<open>
  The loop over the line items, run on the three items with the supplier raising for the
  second: two approved items, one failed item, three orders attempted.
\<close>

lemma approve_batch_items_partial_failure:
  "(case approve_batch_items scenario_env ''batch-token'' scenario_items
           (scenario_world, [], []) of
      (w, approved_items, failed_items) \<Rightarrow>
        map ap_sku approved_items = [''SKU-1'', ''SKU-3'']
        \<and> map fl_sku failed_items = [''SKU-2'']
        \<and> trace w = [PlaceOrder ''Acme Supplies'' ''SKU-1'' 10,
                      UpdateSheet ''SKU-1'' ''ordered'' ''ORD-SKU-1'',
                      PlaceOrder ''Quick Ship'' ''SKU-2'' 10,
                      PlaceOrder ''Acme Supplies'' ''SKU-3'' 10,
                      UpdateSheet ''SKU-3'' ''ordered'' ''ORD-SKU-3''])"
  by (simp add: scenario_items_def approve_batch_item_def scenario_env_def Let_def
      truthy_def get_default_def emit_def log_error_def scenario_world_def)

text \<open>
  Whatever the token, the store and the collaborators: with the right secret a batch
  endpoint answers the error page of the \<open>NameError\<close> and leaves the world as it was.
\<close>

lemma approve_batch_action_name_error:
  "secret = webhook_secret E \<Longrightarrow>
     approve_batch_action E now w tok secret =
       (w, \<lparr>status_code = 200,
            body = ErrorHtml (''Error processing batch approval: ''
                     @ exn_message (NameError ''pending_actions''))\<rparr>)"
  by (simp add: approve_batch_action_def global_manager_def)

lemma reject_batch_action_name_error:
  "secret = webhook_secret E \<Longrightarrow>
     reject_batch_action E now w tok secret =
       (w, \<lparr>status_code = 200,
            body = ErrorHtml (''Error processing batch rejection: ''
                     @ exn_message (NameError ''pending_actions''))\<rparr>)"
  by (simp add: reject_batch_action_def global_manager_def)

lemma bad_secret_leaves_world:
  "secret \<noteq> webhook_secret E \<Longrightarrow>
     fst (approve_action E now w tok secret) = w
     \<and> fst (reject_action E now w tok secret) = w
     \<and> fst (approve_batch_action E now w tok secret) = w
     \<and> fst (reject_batch_action E now w tok secret) = w
     \<and> status_code (snd (approve_action E now w tok secret)) = 403
     \<and> status_code (snd (reject_action E now w tok secret)) = 403
     \<and> status_code (snd (approve_batch_action E now w tok secret)) = 200
     \<and> status_code (snd (reject_batch_action E now w tok secret)) = 200"
  by (simp add: approve_action_def reject_action_def approve_batch_action_def
      reject_batch_action_def)

text \<open>
  C2. The batch approve endpoint, called with the right secret on the active batch of
  three items whose second order placement raises: the lookup of the global name
  \<open>pending_actions\<close> raises \<open>NameError\<close>, the outer handler answers an error page, the
  world is unchanged (no order attempted, no item list) and the token is still pending.
\<close>

theorem approve_batch_action_never_processes:
  "approve_batch_action scenario_env 5 scenario_world ''batch-token'' ''s3cret'' =
     (scenario_world,
      \<lparr>status_code = 200,
       body = ErrorHtml (''Error processing batch approval: ''
                @ exn_message (NameError ''pending_actions''))\<rparr>)
   \<and> map_option pa_status (get_pending_action (manager scenario_world) 5 ''batch-token'')
       = Some ''pending''
   \<and> trace scenario_world = []"
  using scenario_world_still_pending
  by (simp add: approve_batch_action_def global_manager_def scenario_env_def)
    (simp add: scenario_world_def)

text \<open>
  C6. With a wrong secret the single-item endpoints answer 403 and the batch endpoints
  answer an error page with status 200; none of the four touches the world.
\<close>

theorem bad_secret_batch_status_200:
  "approve_action scenario_env 5 scenario_world ''batch-token'' ''wrong''
     = (scenario_world, \<lparr>status_code = 403, body = HttpError ''Invalid webhook secret''\<rparr>)
   \<and> reject_action scenario_env 5 scenario_world ''batch-token'' ''wrong''
     = (scenario_world, \<lparr>status_code = 403, body = HttpError ''Invalid webhook secret''\<rparr>)
   \<and> approve_batch_action scenario_env 5 scenario_world ''batch-token'' ''wrong''
     = (scenario_world, \<lparr>status_code = 200, body = ErrorHtml ''Invalid webhook secret''\<rparr>)
   \<and> reject_batch_action scenario_env 5 scenario_world ''batch-token'' ''wrong''
     = (scenario_world, \<lparr>status_code = 200, body = ErrorHtml ''Invalid webhook secret''\<rparr>)"
  by (simp add: approve_action_def reject_action_def approve_batch_action_def
      reject_batch_action_def scenario_env_def)

text \<open>
  C7. The batch reject endpoint, called with the right secret on the active batch: the
  lookup of \<open>pending_actions\<close> raises \<open>NameError\<close>, the world is unchanged and the token
  is still pending. The loop over the items, taken by itself, marks the items and writes
  no recompute task, while the single-item reject endpoint writes one.
\<close>

theorem reject_batch_action_never_processes:
  "reject_batch_action scenario_env 5 scenario_world ''batch-token'' ''s3cret'' =
     (scenario_world,
      \<lparr>status_code = 200,
       body = ErrorHtml (''Error processing batch rejection: ''
                @ exn_message (NameError ''pending_actions''))\<rparr>)
   \<and> map_option pa_status (get_pending_action (manager scenario_world) 5 ''batch-token'')
       = Some ''pending''
   \<and> recompute_tasks (fst (reject_batch_items scenario_env scenario_items (scenario_world, [])))
       = []
   \<and> map rc_sku (recompute_tasks
        (fst (reject_action scenario_env 5 single_world ''tok-1'' ''s3cret'')))
       = [''WIDGET-001'']"
proof -
  have a: "reject_batch_action scenario_env 5 scenario_world ''batch-token'' ''s3cret'' =
     (scenario_world,
      \<lparr>status_code = 200,
       body = ErrorHtml (''Error processing batch rejection: ''
                @ exn_message (NameError ''pending_actions''))\<rparr>)"
    by (simp add: reject_batch_action_def global_manager_def scenario_env_def)
  have b: "recompute_tasks
             (fst (reject_batch_items scenario_env scenario_items (scenario_world, []))) = []"
    by (simp add: scenario_items_def reject_batch_item_def scenario_env_def Let_def
        truthy_def emit_def log_error_def scenario_world_def)
  have c: "map rc_sku (recompute_tasks
        (fst (reject_action scenario_env 5 single_world ''tok-1'' ''s3cret''))) = [''WIDGET-001'']"
    using single_world_active
    by (simp add: reject_action_def global_manager_def Let_def scenario_env_def
        single_stored_def truthy_def best_effort_def emit_def set_status_def)
      (simp add: single_world_def)
  show ?thesis using a b c scenario_world_still_pending by simp
qed

subsection \<open>The reorder policy\<close>

lemma fallback_inv_step:
  assumes "fallback_inv S (fb, lo)"
  shows "fallback_inv (insert a S)
           (case v_price_per_unit a of
              None \<Rightarrow> (fb, lo)
            | Some unit_cost \<Rightarrow>
                if less_xreal unit_cost lo then (Some a, Fin unit_cost) else (fb, lo))"
proof (cases "v_price_per_unit a")
  case None
  then show ?thesis using assms by (auto simp: fallback_inv_def)
next
  case (Some c)
  show ?thesis
  proof (cases lo)
    case PInf
    then show ?thesis using assms Some by (auto simp: fallback_inv_def)
  next
    case (Fin p)
    then obtain v where v: "fb = Some v" "v \<in> S" "v_price_per_unit v = Some p"
        "\<forall>w\<in>S. \<forall>q. v_price_per_unit w = Some q \<longrightarrow> p \<le> q"
      using assms by (auto simp: fallback_inv_def)
    show ?thesis
    proof (cases "c < p")
      case True
      then have "\<forall>w\<in>insert a S. \<forall>q. v_price_per_unit w = Some q \<longrightarrow> c \<le> q"
        using v Some by force
      then show ?thesis using True Some Fin by (simp add: fallback_inv_def)
    next
      case False
      then have "\<forall>w\<in>insert a S. \<forall>q. v_price_per_unit w = Some q \<longrightarrow> p \<le> q"
        using v Some by force
      then show ?thesis using False Some Fin v by (simp add: fallback_inv_def)
    qed
  qed
qed

lemma fallback_inv_loop:
  "fallback_inv S acc \<Longrightarrow> fallback_inv (S \<union> set vs) (select_fallback_vendor vs acc)"
proof (induction vs arbitrary: S acc)
  case Nil
  then show ?case by simp
next
  case (Cons a vs)
  obtain fb lo where acc: "acc = (fb, lo)" by (cases acc)
  have "fallback_inv (insert a S \<union> set vs)
          (select_fallback_vendor vs
             (case v_price_per_unit a of
                None \<Rightarrow> (fb, lo)
              | Some unit_cost \<Rightarrow>
                  if less_xreal unit_cost lo then (Some a, Fin unit_cost) else (fb, lo)))"
    using Cons.IH fallback_inv_step Cons.prems acc by blast
  then show ?case by (simp add: acc)
qed

lemma fallback_inv_result: "fallback_inv (set vs) (select_fallback_vendor vs (None, PInf))"
proof -
  have "fallback_inv {} (None, PInf)" by (simp add: fallback_inv_def)
  from fallback_inv_loop[OF this, of vs] show ?thesis by simp
qed

lemma fallback_vendor_lowest:
  assumes "\<exists>v\<in>set vs. v_price_per_unit v \<noteq> None"
  shows "\<exists>v p. fst (select_fallback_vendor vs (None, PInf)) = Some v \<and> v \<in> set vs
           \<and> v_price_per_unit v = Some p
           \<and> (\<forall>w\<in>set vs. \<forall>q. v_price_per_unit w = Some q \<longrightarrow> p \<le> q)"
proof -
  obtain fb lo where r: "select_fallback_vendor vs (None, PInf) = (fb, lo)"
    by (cases "select_fallback_vendor vs (None, PInf)")
  with fallback_inv_result[of vs] assms show ?thesis
    by (auto simp: fallback_inv_def)
qed

lemma fallback_vendor_member:
  assumes "fst (select_fallback_vendor vs (None, PInf)) = Some v"
  shows "v \<in> set vs \<and> v_price_per_unit v \<noteq> None"
proof -
  obtain fb lo where r: "select_fallback_vendor vs (None, PInf) = (fb, lo)"
    by (cases "select_fallback_vendor vs (None, PInf)")
  with fallback_inv_result[of vs] assms show ?thesis
    by (auto simp: fallback_inv_def)
qed

lemma stockout_date_of_PInf: "stockout_date_of now PInf = Inr None"
  by (simp add: stockout_date_of_def)

lemma stockout_date_of_same_day:
  "day_of now1 = day_of now2 \<Longrightarrow> stockout_date_of now1 d = stockout_date_of now2 d"
  by (cases d) (simp_all add: stockout_date_of_def Let_def)

lemma fallback_vendor_none:
  assumes "\<forall>v\<in>set vs. v_price_per_unit v = None"
  shows "fst (select_fallback_vendor vs (None, PInf)) = None"
proof -
  obtain fb lo where r: "select_fallback_vendor vs (None, PInf) = (fb, lo)"
    by (cases "select_fallback_vendor vs (None, PInf)")
  with fallback_inv_result[of vs] assms show ?thesis
    by (auto simp: fallback_inv_def)
qed

text \<open>
  C5, as stated, fails: with zero demand, stock at or below the reorder point and one
  vendor that carries no price at all (the optimiser selecting none), the decision is
  \<open>needs_reorder = False\<close>.
\<close>

theorem zero_demand_unpriced_vendor_counterexample:
  "compute_daily_average zero_demand_deps [] (inv_sku low_stock_item) = 0
   \<and> inv_on_hand low_stock_item \<le> int_default (inv_reorder_point low_stock_item) 0
   \<and> map_sum id d_needs_reorder
        (evaluate_reorder_need zero_demand_deps default_policy 0 low_stock_item []
           [unpriced_vendor] 30) = Inr False"
  by (simp add: evaluate_reorder_need_def zero_demand_deps_def low_stock_item_def
      int_default_def unpriced_vendor_def fallback_for_zero_demand_def Let_def)

text \<open>
  C5, amended. For an item of zero average daily demand: an empty vendor list is refused
  with \<open>ValueError\<close>; otherwise the evaluation returns a decision whose
  \<open>needs_reorder\<close> holds exactly when \<open>on_hand \<le> reorder_point\<close> and a vendor can be
  resolved (the optimiser selects one, or some vendor carries \<open>price_per_unit\<close>). So
  with a resolvable vendor the flag is \<open>on_hand \<le> reorder_point\<close>, and with none it is
  false whatever the stock. When the flag holds the urgency named by the summary is
  \<open>MEDIUM\<close>; when it holds and the optimiser selected none, the vendor is one of least
  unit price, the EOQ is \<open>max min_order_qty reorder_quantity\<close> (10 when the item has
  none) and the total cost is the EOQ times that unit price.
\<close>

theorem zero_demand_reorder_decision:
  assumes avg: "compute_daily_average D transactions (inv_sku item) = 0"
  shows "(vendors = [] \<longrightarrow>
            evaluate_reorder_need D P now item transactions vendors target_stock_days
              = Inl (ValueError ''No vendors provided for evaluation''))
     \<and> (vendors \<noteq> [] \<longrightarrow>
          (\<exists>d. evaluate_reorder_need D P now item transactions vendors target_stock_days = Inr d
             \<and> (d_needs_reorder d \<longleftrightarrow>
                  inv_on_hand item \<le> int_default (inv_reorder_point item) 0
                  \<and> (select_best_vendor D vendors 0 \<noteq> None
                      \<or> (\<exists>v\<in>set vendors. v_price_per_unit v \<noteq> None)))
             \<and> (select_best_vendor D vendors 0 = None
                   \<and> (\<forall>v\<in>set vendors. v_price_per_unit v = None)
                 \<longrightarrow> \<not> d_needs_reorder d \<and> d_vendor d = None)
             \<and> (d_needs_reorder d \<longrightarrow> urgency_of (d_evidence_summary d) = Some MEDIUM)
             \<and> (d_needs_reorder d \<and> select_best_vendor D vendors 0 = None \<longrightarrow>
                  (\<exists>v\<in>set vendors. \<exists>p. v_price_per_unit v = Some p
                     \<and> (\<forall>w\<in>set vendors. \<forall>q. v_price_per_unit w = Some q \<longrightarrow> p \<le> q)
                     \<and> d_vendor d = Some (v_name v)
                     \<and> d_eoq d = of_int (max (min_order_qty P)
                                            (int_default (inv_reorder_quantity item) 10))
                     \<and> d_total_cost d = d_eoq d * p))))"
    (is "_ \<and> (_ \<longrightarrow> ?dec)")
proof (cases "vendors = []")
  case True
  then show ?thesis by (simp add: evaluate_reorder_need_def Let_def)
next
  case ne: False
  show ?thesis
  proof (cases "select_best_vendor D vendors 0")
    case (Some bv)
    have "\<exists>d. evaluate_reorder_need D P now item transactions vendors target_stock_days = Inr d
        \<and> (d_needs_reorder d \<longleftrightarrow> inv_on_hand item \<le> int_default (inv_reorder_point item) 0)
        \<and> (d_needs_reorder d \<longrightarrow> urgency_of (d_evidence_summary d) = Some MEDIUM)"
      using avg ne Some
      by (simp add: evaluate_reorder_need_def Let_def estimate_days_until_stockout_def
          stockout_date_of_PInf generate_evidence_summary_def)
    then show ?thesis using ne Some by auto
  next
    case None
    show ?thesis
    proof (cases "inv_on_hand item \<le> int_default (inv_reorder_point item) 0")
      case False
      have "\<exists>d. evaluate_reorder_need D P now item transactions vendors target_stock_days = Inr d
          \<and> \<not> d_needs_reorder d \<and> d_vendor d = None"
        using False avg None ne by (simp add: evaluate_reorder_need_def Let_def)
      then show ?thesis using ne None False by auto
    next
      case True
      show ?thesis
      proof (cases "\<exists>v\<in>set vendors. v_price_per_unit v \<noteq> None")
        case unpriced: False
        then have "fst (select_fallback_vendor vendors (None, PInf)) = None"
          using fallback_vendor_none by blast
        then have "fallback_for_zero_demand P item vendors = None"
          by (simp add: fallback_for_zero_demand_def)
        then have "\<exists>d. evaluate_reorder_need D P now item transactions vendors
                          target_stock_days = Inr d
            \<and> \<not> d_needs_reorder d \<and> d_vendor d = None"
          using True avg None ne by (simp add: evaluate_reorder_need_def Let_def)
        then show ?thesis using ne None unpriced by auto
      next
        case priced: True
        from fallback_vendor_lowest[OF priced] obtain v p where
          v: "fst (select_fallback_vendor vendors (None, PInf)) = Some v" "v \<in> set vendors"
             "v_price_per_unit v = Some p"
             "\<forall>w\<in>set vendors. \<forall>q. v_price_per_unit w = Some q \<longrightarrow> p \<le> q"
          by blast
        define eoq where
          "eoq = max (min_order_qty P) (int_default (inv_reorder_quantity item) 10)"
        have fb: "fallback_for_zero_demand P item vendors =
            Some (v\<lparr>v_eoq := Some (of_int eoq),
                    v_total_annual_cost := Some (of_int eoq * p),
                    v_cost_breakdown := Some \<lparr>cb_purchase_cost = of_int eoq * p,
                       cb_ordering_cost = 0, cb_holding_cost = 0\<rparr>\<rparr>)"
          using v by (simp add: fallback_for_zero_demand_def Let_def real_default_def eoq_def)
        have ev: "\<exists>d. evaluate_reorder_need D P now item transactions vendors
                         target_stock_days = Inr d
            \<and> d_needs_reorder d \<and> d_vendor d = Some (v_name v) \<and> d_eoq d = of_int eoq
            \<and> d_total_cost d = of_int eoq * p
            \<and> urgency_of (d_evidence_summary d) = Some MEDIUM"
          using True avg None ne fb
          by (simp add: evaluate_reorder_need_def Let_def estimate_days_until_stockout_def
              stockout_date_of_PInf real_default_def generate_evidence_summary_def)
        then obtain d where d:
            "evaluate_reorder_need D P now item transactions vendors target_stock_days = Inr d"
            "d_needs_reorder d" "d_vendor d = Some (v_name v)" "d_eoq d = of_int eoq"
            "d_total_cost d = of_int eoq * p"
            "urgency_of (d_evidence_summary d) = Some MEDIUM"
          by blast
        have low: "\<exists>v\<in>set vendors. \<exists>p. v_price_per_unit v = Some p
                   \<and> (\<forall>w\<in>set vendors. \<forall>q. v_price_per_unit w = Some q \<longrightarrow> p \<le> q)
                   \<and> d_vendor d = Some (v_name v)
                   \<and> d_eoq d = of_int (max (min_order_qty P)
                                          (int_default (inv_reorder_quantity item) 10))
                   \<and> d_total_cost d = d_eoq d * p"
          using v d eoq_def by auto
        have c2: "d_needs_reorder d \<longleftrightarrow>
                  inv_on_hand item \<le> int_default (inv_reorder_point item) 0
                  \<and> (select_best_vendor D vendors 0 \<noteq> None
                      \<or> (\<exists>v\<in>set vendors. v_price_per_unit v \<noteq> None))"
          using d(2) True priced by simp
        have c3: "select_best_vendor D vendors 0 = None
                   \<and> (\<forall>v\<in>set vendors. v_price_per_unit v = None)
                 \<longrightarrow> \<not> d_needs_reorder d \<and> d_vendor d = None"
          using priced by auto
        have c4: "d_needs_reorder d \<longrightarrow> urgency_of (d_evidence_summary d) = Some MEDIUM"
          using d(6) by simp
        have c5: "d_needs_reorder d \<and> select_best_vendor D vendors 0 = None \<longrightarrow>
                  (\<exists>v\<in>set vendors. \<exists>p. v_price_per_unit v = Some p
                     \<and> (\<forall>w\<in>set vendors. \<forall>q. v_price_per_unit w = Some q \<longrightarrow> p \<le> q)
                     \<and> d_vendor d = Some (v_name v)
                     \<and> d_eoq d = of_int (max (min_order_qty P)
                                            (int_default (inv_reorder_quantity item) 10))
                     \<and> d_total_cost d = d_eoq d * p)"
          using low by simp
        note body = conjI [OF d(1) conjI [OF c2 conjI [OF c3 conjI [OF c4 c5]]]]
        have "?dec" by (rule exI [of _ d]) (rule body)
        then show ?thesis using ne by simp
      qed
    qed
  qed
qed

theorem zero_demand_reorder_decision_witness:
  "map_sum id (\<lambda>d. (d_needs_reorder d, d_vendor d, d_eoq d, d_total_cost d,
                      urgency_of (d_evidence_summary d)))
     (evaluate_reorder_need zero_demand_deps default_policy 0 low_stock_item [] all_vendors 30)
   = Inr (True, Some ''Budget Components'', 10, 99.5, Some MEDIUM)
   \<and> map_sum id (\<lambda>d. (d_needs_reorder d, d_vendor d))
     (evaluate_reorder_need zero_demand_deps default_policy 0 low_stock_item []
        [unpriced_vendor] 30)
   = Inr (False, None)
   \<and> evaluate_reorder_need zero_demand_deps default_policy 0 low_stock_item [] [] 30
   = Inl (ValueError ''No vendors provided for evaluation'')"
proof -
  have h1: "compute_daily_average zero_demand_deps [] (inv_sku low_stock_item) = 0"
    by (simp add: zero_demand_deps_def)
  have ev: "map_sum id (\<lambda>d. (d_needs_reorder d, d_vendor d, d_eoq d, d_total_cost d,
                      urgency_of (d_evidence_summary d)))
     (evaluate_reorder_need zero_demand_deps default_policy 0 low_stock_item [] all_vendors 30)
   = Inr (True, Some ''Budget Components'', 10, 99.5, Some MEDIUM)"
    by (simp add: evaluate_reorder_need_def zero_demand_deps_def low_stock_item_def
        int_default_def all_vendors_def mk_vendor_def fallback_for_zero_demand_def Let_def
        default_policy_def real_default_def estimate_days_until_stockout_def
        stockout_date_of_PInf generate_evidence_summary_def)
  have s: "select_best_vendor zero_demand_deps [unpriced_vendor] 0 = None"
    by (simp add: zero_demand_deps_def)
  have u: "\<forall>v\<in>set [unpriced_vendor]. v_price_per_unit v = None"
    by (simp add: unpriced_vendor_def)
  from zero_demand_reorder_decision
         [OF h1, of "[unpriced_vendor]" default_policy 0 30, THEN conjunct2] s u
  have none: "map_sum id (\<lambda>d. (d_needs_reorder d, d_vendor d))
     (evaluate_reorder_need zero_demand_deps default_policy 0 low_stock_item []
        [unpriced_vendor] 30) = Inr (False, None)"
    by auto
  from zero_demand_reorder_decision
         [OF h1, of "[]" default_policy 0 30, THEN conjunct1]
  have empty: "evaluate_reorder_need zero_demand_deps default_policy 0 low_stock_item [] [] 30
   = Inl (ValueError ''No vendors provided for evaluation'')"
    by simp
  show ?thesis
    using zero_demand_reorder_decision [OF h1, of all_vendors default_policy 0 30]
      ev none empty
    by simp
qed

text \<open>
  C8, as stated, fails: the stock-out date is computed from the clock, so the same item,
  transactions and vendors evaluated on two consecutive days give different decisions.
\<close>

theorem evaluation_on_two_days_counterexample:
  "evaluate_reorder_need steady_demand_deps default_policy (739000 * usec_per_day)
      widget_item [] all_vendors 30
   \<noteq> evaluate_reorder_need steady_demand_deps default_policy (739001 * usec_per_day)
      widget_item [] all_vendors 30"
proof -
  have a: "map_sum id d_stockout_date
            (evaluate_reorder_need steady_demand_deps default_policy (739000 * usec_per_day)
               widget_item [] all_vendors 30) = Inr (Some 739008)"
    by (simp add: evaluate_reorder_need_def steady_demand_deps_def widget_item_def
        int_default_def all_vendors_def mk_vendor_def Let_def default_policy_def
        real_default_def estimate_days_until_stockout_def stockout_date_of_def py_int_def
        day_of_def usec_per_day_def max_day_def)
  have b: "map_sum id d_stockout_date
            (evaluate_reorder_need steady_demand_deps default_policy (739001 * usec_per_day)
               widget_item [] all_vendors 30) = Inr (Some 739009)"
    by (simp add: evaluate_reorder_need_def steady_demand_deps_def widget_item_def
        int_default_def all_vendors_def mk_vendor_def Let_def default_policy_def
        real_default_def estimate_days_until_stockout_def stockout_date_of_def py_int_def
        day_of_def usec_per_day_def max_day_def)
  show ?thesis
  proof
    assume "evaluate_reorder_need steady_demand_deps default_policy (739000 * usec_per_day)
      widget_item [] all_vendors 30
       = evaluate_reorder_need steady_demand_deps default_policy (739001 * usec_per_day)
      widget_item [] all_vendors 30"
    with a b show False by simp
  qed
qed

text \<open>
  C8, amended. The evaluation is a function of the item, the transactions, the vendors
  and the calendar date of the clock: two evaluations on the same date give the same
  result; for an item without demand the clock does not matter at all; and two decisions
  for the same inputs at any two instants differ at most in the stock-out date.
\<close>

theorem evaluation_depends_on_date_only:
  "(day_of now1 = day_of now2 \<longrightarrow>
      evaluate_reorder_need D P now1 item transactions vendors n
        = evaluate_reorder_need D P now2 item transactions vendors n)
   \<and> (compute_daily_average D transactions (inv_sku item) \<le> 0 \<longrightarrow>
      evaluate_reorder_need D P now1 item transactions vendors n
        = evaluate_reorder_need D P now2 item transactions vendors n)
   \<and> (\<forall>d1 d2. evaluate_reorder_need D P now1 item transactions vendors n = Inr d1
         \<and> evaluate_reorder_need D P now2 item transactions vendors n = Inr d2
        \<longrightarrow> d1\<lparr>d_stockout_date := d_stockout_date d2\<rparr> = d2)"
proof (intro conjI impI allI)
  assume "day_of now1 = day_of now2"
  then have eq: "\<And>d. stockout_date_of now1 d = stockout_date_of now2 d"
    by (rule stockout_date_of_same_day)
  show "evaluate_reorder_need D P now1 item transactions vendors n
        = evaluate_reorder_need D P now2 item transactions vendors n"
    unfolding evaluate_reorder_need_def eq by (rule refl)
next
  assume "compute_daily_average D transactions (inv_sku item) \<le> 0"
  then have inf: "estimate_days_until_stockout (inv_on_hand item)
                    (compute_daily_average D transactions (inv_sku item)) = PInf"
    by (simp add: estimate_days_until_stockout_def)
  show "evaluate_reorder_need D P now1 item transactions vendors n
        = evaluate_reorder_need D P now2 item transactions vendors n"
    unfolding evaluate_reorder_need_def Let_def inf stockout_date_of_PInf by (rule refl)
next
  fix d1 d2
  assume "evaluate_reorder_need D P now1 item transactions vendors n = Inr d1
         \<and> evaluate_reorder_need D P now2 item transactions vendors n = Inr d2"
  then show "d1\<lparr>d_stockout_date := d_stockout_date d2\<rparr> = d2"
    by (auto simp: evaluate_reorder_need_def Let_def
        split: if_splits option.splits sum.splits)
qed

theorem evaluation_depends_on_date_only_witness:
  "day_of (739000 * usec_per_day) = day_of (739000 * usec_per_day + 5)
   \<and> evaluate_reorder_need steady_demand_deps default_policy (739000 * usec_per_day)
        widget_item [] all_vendors 30
     = evaluate_reorder_need steady_demand_deps default_policy (739000 * usec_per_day + 5)
        widget_item [] all_vendors 30
   \<and> compute_daily_average zero_demand_deps [] (inv_sku low_stock_item) \<le> 0
   \<and> evaluate_reorder_need zero_demand_deps default_policy (739000 * usec_per_day)
        low_stock_item [] all_vendors 30
     = evaluate_reorder_need zero_demand_deps default_policy (739001 * usec_per_day)
        low_stock_item [] all_vendors 30"
proof -
  have h1: "day_of (739000 * usec_per_day) = day_of (739000 * usec_per_day + 5)"
    by (simp add: day_of_def usec_per_day_def)
  have h2: "compute_daily_average zero_demand_deps [] (inv_sku low_stock_item) \<le> 0"
    by (simp add: zero_demand_deps_def)
  note a = evaluation_depends_on_date_only
             [of "739000 * usec_per_day" "739000 * usec_per_day + 5" steady_demand_deps
                 default_policy widget_item "[]" all_vendors 30,
              THEN conjunct1, rule_format, OF h1]
  note b = evaluation_depends_on_date_only
             [of "739000 * usec_per_day" "739001 * usec_per_day" zero_demand_deps
                 default_policy low_stock_item "[]" all_vendors 30,
              THEN conjunct2, THEN conjunct1, rule_format, OF h2]
  show ?thesis using h1 h2 a b by blast
qed

subsection \<open>The orchestrator\<close>

lemma all_vendors_price_nonneg:
  "v \<in> set all_vendors \<Longrightarrow> v_price_per_unit v = Some p \<Longrightarrow> 0 \<le> p"
  by (auto simp: all_vendors_def mk_vendor_def)

lemma fallback_cost_nonneg:
  assumes sub: "set vs \<subseteq> set all_vendors"
    and fb: "fallback_for_zero_demand default_policy item vs = Some bv"
  shows "0 \<le> real_default (v_total_annual_cost bv) 0"
proof -
  from fb obtain v where v: "fst (select_fallback_vendor vs (None, PInf)) = Some v"
    by (auto simp: fallback_for_zero_demand_def split: option.splits)
  from fallback_vendor_member[OF v] obtain p where
    p: "v \<in> set vs" "v_price_per_unit v = Some p" by auto
  with sub have "0 \<le> p" using all_vendors_price_nonneg by blast
  moreover have "real_default (v_total_annual_cost bv) 0 =
      of_int (max 1 (int_default (inv_reorder_quantity item) 10)) * p"
    using fb v p
    by (auto simp: fallback_for_zero_demand_def Let_def real_default_def default_policy_def)
  moreover have "(0::int) \<le> max 1 (int_default (inv_reorder_quantity item) 10)" by simp
  ultimately show ?thesis by simp
qed

lemma reorder_decision_nonneg:
  assumes ev: "evaluate_reorder_need D default_policy now item txs vs n = Inr d"
    and need: "d_needs_reorder d"
    and sub: "set vs \<subseteq> set all_vendors"
    and costs: "\<forall>dm v. select_best_vendor D vs dm = Some v
                  \<longrightarrow> 0 \<le> real_default (v_total_annual_cost v) 0"
  shows "0 \<le> d_qty d \<and> 0 \<le> d_total_cost d"
proof -
  define best0 where
    "best0 = select_best_vendor D vs (compute_daily_average D txs (inv_sku item) * 365)"
  define best where
    "best = (if best0 = None \<and> compute_daily_average D txs (inv_sku item) \<le> 0
                \<and> inv_on_hand item \<le> int_default (inv_reorder_point item) 0
             then fallback_for_zero_demand default_policy item vs else best0)"
  have bc: "\<And>bv. best = Some bv \<Longrightarrow> 0 \<le> real_default (v_total_annual_cost bv) 0"
    using fallback_cost_nonneg[OF sub] costs
    by (auto simp: best_def best0_def split: if_splits)
  from ev need obtain bv where bv: "best = Some bv"
    by (auto simp: evaluate_reorder_need_def Let_def best_def best0_def
        split: if_splits option.splits sum.splits)
  from ev bv have "d_total_cost d = real_default (v_total_annual_cost bv) 0"
    by (auto simp: evaluate_reorder_need_def Let_def best_def best0_def
        split: if_splits option.splits sum.splits)
  moreover from ev bv need have "0 \<le> d_qty d"
    by (auto simp: evaluate_reorder_need_def Let_def best_def best0_def
        split: if_splits option.splits sum.splits)
  ultimately show ?thesis using bc[OF bv] by simp
qed

lemma process_sku_manager:
  "as_manager (fst (process_sku A E now sd txs st)) = as_manager st"
  by (auto simp: process_sku_def Let_def bump_reorders_def bump_auto_orders_def
      split: sum.splits option.splits)

lemma process_sku_request:
  assumes "process_sku A E now sd [] st = (st', Inr (Some req))"
  shows "reorder_request E now [sd] req"
  using assms
  by (auto simp: process_sku_def Let_def reorder_request_def
      split: sum.splits option.splits if_splits)

lemma reorder_request_mono:
  "reorder_request E now inventory r \<Longrightarrow> set inventory \<subseteq> set inventory' \<Longrightarrow> reorder_request E now inventory' r"
  by (auto simp: reorder_request_def)

lemma process_all_requests:
  "process_all A E now inventory [] (st, pend) = (st', pend') \<Longrightarrow>
     as_manager st' = as_manager st
     \<and> (\<forall>r\<in>set pend'. r \<in> set pend \<or> reorder_request E now inventory r)"
proof (induction inventory arbitrary: st pend)
  case Nil
  then show ?case by simp
next
  case (Cons sd rest)
  obtain s1 res where ps: "process_sku A E now sd [] st = (s1, res)"
    by (cases "process_sku A E now sd [] st")
  have m1: "as_manager s1 = as_manager st"
    using process_sku_manager[of A E now sd "[]" st] ps by simp
  define acc where "acc = (case (s1, res) of
          (st', Inl e) \<Rightarrow>
            (add_error (''Error processing SKU '' @ sd_sku sd @ '': '' @ exn_message e) st',
             pend)
        | (st', Inr None) \<Rightarrow> (bump_processed st', pend)
        | (st', Inr (Some approval_request)) \<Rightarrow>
            (bump_processed st', pend @ [approval_request]))"
  obtain s2 p2 where acc2: "acc = (s2, p2)" by (cases acc)
  have run: "process_all A E now rest [] (s2, p2) = (st', pend')"
    using Cons.prems ps acc2 by (simp add: acc_def)
  have m2: "as_manager s2 = as_manager st"
    using acc2 m1
    by (auto simp: acc_def add_error_def bump_processed_def split: sum.splits option.splits)
  have p2: "\<forall>r\<in>set p2. r \<in> set pend \<or> reorder_request E now [sd] r"
    using acc2 ps process_sku_request[of A E now sd st]
    by (auto simp: acc_def split: sum.splits option.splits)
  from Cons.IH[OF run] have ih: "as_manager st' = as_manager s2"
    "\<forall>r\<in>set pend'. r \<in> set p2 \<or> reorder_request E now rest r" by auto
  have "\<forall>r\<in>set pend'. r \<in> set pend \<or> reorder_request E now (sd # rest) r"
  proof
    fix r assume "r \<in> set pend'"
    with ih(2) have "r \<in> set p2 \<or> reorder_request E now rest r" by blast
    then show "r \<in> set pend \<or> reorder_request E now (sd # rest) r"
      using p2 reorder_request_mono[of E now rest r "sd # rest"]
        reorder_request_mono[of E now "[sd]" r "sd # rest"] by auto
  qed
  then show ?case using ih(1) m2 by simp
qed

lemma sum_list_nonneg_map:
  "(\<forall>x\<in>set xs. 0 \<le> f x) \<Longrightarrow> (0::real) \<le> sum_list (map f xs)"
  by (induction xs) auto

text \<open>
  C9. Under the vendor table of the agent (the sample is drawn from \<open>all_vendors\<close>) and
  an optimiser whose selected vendor has a non-negative total annual cost, a cycle of the
  orchestrator leaves the store as it was or stores one batch built from the collected
  requests, each of which stems from a decision with \<open>needs_reorder\<close>; every action that
  the cycle put into the store has non-negative quantity and total cost, and so has each
  of its line items, which is the line of such a request.
\<close>

theorem stored_actions_come_from_reorders:
  assumes vendors: "set (get_vendor_data E) \<subseteq> set all_vendors"
    and costs: "\<forall>dm v. select_best_vendor (ae_deps E) (get_vendor_data E) dm = Some v
                  \<longrightarrow> 0 \<le> real_default (v_total_annual_cost v) 0"
  shows "(as_manager (run_cycle A E now inventory mgr) = mgr
          \<or> (\<exists>reqs. reqs \<noteq> [] \<and> (\<forall>r\<in>set reqs. reorder_request E now inventory r)
               \<and> as_manager (run_cycle A E now inventory mgr) =
                   fst (store_pending_action mgr now (ae_batch_token E)
                          (batch_action_data reqs))))
       \<and> (\<forall>t a. entries (as_manager (run_cycle A E now inventory mgr)) t = Some a \<longrightarrow>
             entries mgr t = Some a
             \<or> (0 \<le> pa_quantity a \<and> 0 \<le> pa_total_cost a
                \<and> (\<forall>it\<in>set (action_items a).
                      0 \<le> item_quantity it \<and> 0 \<le> item_total_cost it
                      \<and> (\<exists>r. reorder_request E now inventory r \<and> it = batch_item_of r))))"
proof -
  define st0 where "st0 = \<lparr>as_manager = mgr, as_results = fresh_results, as_trace = []\<rparr>"
  obtain st1 pend where pa: "process_all A E now inventory [] (st0, []) = (st1, pend)"
    by (cases "process_all A E now inventory [] (st0, [])")
  from process_all_requests[OF pa]
  have m1: "as_manager st1 = mgr" and rq: "\<forall>r\<in>set pend. reorder_request E now inventory r"
    by (auto simp: st0_def)
  have nn: "\<forall>r\<in>set pend. 0 \<le> d_qty (rq_reorder_decision r)
                           \<and> 0 \<le> d_total_cost (rq_reorder_decision r)"
  proof
    fix r assume "r \<in> set pend"
    with rq have rr: "reorder_request E now inventory r" by blast
    then have need: "d_needs_reorder (rq_reorder_decision r)"
      by (auto simp: reorder_request_def)
    from rr obtain sd :: sku_data where ev:
      "evaluate_reorder_need (ae_deps E) default_policy now
          \<lparr>inv_sku = sd_sku sd, inv_on_hand = sd_on_hand sd,
           inv_reorder_point = Some (sd_reorder_point sd), inv_reorder_quantity = None\<rparr>
          [] (get_vendor_data E) 30 = Inr (rq_reorder_decision r)"
      unfolding reorder_request_def by blast
    from reorder_decision_nonneg[OF ev need vendors costs]
    show "0 \<le> d_qty (rq_reorder_decision r) \<and> 0 \<le> d_total_cost (rq_reorder_decision r)" .
  qed
  define stored where
    "stored = fst (store_pending_action mgr now (ae_batch_token E) (batch_action_data pend))"
  have sb: "as_manager (fst (send_batch_approval_email E now pend st1)) =
              (if pend = [] then mgr else stored)"
    using m1
    by (auto simp: send_batch_approval_email_def stored_def store_pending_action_def Let_def
        split: prod.splits)
  have sbn: "snd (send_batch_approval_email E now pend st1) = None"
    by (auto simp: send_batch_approval_email_def split: prod.splits)
  have rc: "as_manager (run_cycle A E now inventory mgr) =
              (if inventory = [] \<or> pend = [] then mgr else stored)"
  proof (cases "inventory = []")
    case True
    then show ?thesis by (simp add: run_cycle_def)
  next
    case False
    show ?thesis
    proof (cases "pend = []")
      case True
      then show ?thesis
        using False pa m1
        by (simp add: run_cycle_def fetch_transaction_data_def st0_def [symmetric])
    next
      case ne: False
      obtain st2 mid where s2: "send_batch_approval_email E now pend st1 = (st2, mid)"
        by (cases "send_batch_approval_email E now pend st1")
      with sb sbn ne have "as_manager st2 = stored" "mid = None" by auto
      then show ?thesis
        using False ne pa s2
        by (simp add: run_cycle_def fetch_transaction_data_def st0_def [symmetric]
            add_error_def)
    qed
  qed
  have qty: "0 \<le> ad_quantity (batch_action_data pend)"
    using nn by (simp add: batch_action_data_def sum_list_nonneg_map)
  have cost: "0 \<le> ad_total_cost (batch_action_data pend)"
    using nn by (simp add: batch_action_data_def sum_list_nonneg_map)
  have items: "\<forall>it\<in>set (map batch_item_of pend).
                 0 \<le> item_quantity it \<and> 0 \<le> item_total_cost it
                 \<and> (\<exists>r. reorder_request E now inventory r \<and> it = batch_item_of r)"
    using nn rq by (auto simp: batch_item_of_def)
  have ai: "ad_items (batch_action_data pend) = Some (map batch_item_of pend)"
    by (simp add: batch_action_data_def)
  have st: "\<And>t a. entries stored t = Some a \<Longrightarrow>
             entries mgr t = Some a
             \<or> (0 \<le> pa_quantity a \<and> 0 \<le> pa_total_cost a
                \<and> (\<forall>it\<in>set (action_items a).
                      0 \<le> item_quantity it \<and> 0 \<le> item_total_cost it
                      \<and> (\<exists>r. reorder_request E now inventory r \<and> it = batch_item_of r)))"
    using qty cost items ai
    by (auto simp: stored_def store_pending_action_def Let_def action_items_def
        split: if_splits)
  have first: "as_manager (run_cycle A E now inventory mgr) = mgr
          \<or> (\<exists>reqs. reqs \<noteq> [] \<and> (\<forall>r\<in>set reqs. reorder_request E now inventory r)
               \<and> as_manager (run_cycle A E now inventory mgr) =
                   fst (store_pending_action mgr now (ae_batch_token E)
                          (batch_action_data reqs)))"
    using rc rq by (auto simp: stored_def)
  have second: "\<forall>t a. entries (as_manager (run_cycle A E now inventory mgr)) t = Some a \<longrightarrow>
             entries mgr t = Some a
             \<or> (0 \<le> pa_quantity a \<and> 0 \<le> pa_total_cost a
                \<and> (\<forall>it\<in>set (action_items a).
                      0 \<le> item_quantity it \<and> 0 \<le> item_total_cost it
                      \<and> (\<exists>r. reorder_request E now inventory r \<and> it = batch_item_of r)))"
  proof (intro allI impI)
    fix t a
    assume e: "entries (as_manager (run_cycle A E now inventory mgr)) t = Some a"
    show "entries mgr t = Some a
             \<or> (0 \<le> pa_quantity a \<and> 0 \<le> pa_total_cost a
                \<and> (\<forall>it\<in>set (action_items a).
                      0 \<le> item_quantity it \<and> 0 \<le> item_total_cost it
                      \<and> (\<exists>r. reorder_request E now inventory r \<and> it = batch_item_of r)))"
    proof (cases "inventory = [] \<or> pend = []")
      case True
      with rc e show ?thesis by simp
    next
      case False
      with rc e have "entries stored t = Some a" by simp
      from st[OF this] show ?thesis .
    qed
  qed
  from first second show ?thesis by blast
qed

theorem stored_actions_come_from_reorders_witness:
  "map_option (\<lambda>a. (pa_status a, pa_quantity a, pa_total_cost a,
                      map item_sku (action_items a)))
     (entries (as_manager (run_cycle dry_agent scenario_agent_env 0 scenario_inventory
                             json_manager)) ''batch-token'')
   = Some (''pending'', 10, 125, [''WIDGET-001''])"
proof -
  have h1: "set (get_vendor_data scenario_agent_env) \<subseteq> set all_vendors"
    by (simp add: get_vendor_data_def scenario_agent_env_def set_take_subset)
  have h2: "\<forall>dm v. select_best_vendor (ae_deps scenario_agent_env)
                      (get_vendor_data scenario_agent_env) dm = Some v
                  \<longrightarrow> 0 \<le> real_default (v_total_annual_cost v) 0"
    by (simp add: scenario_agent_env_def zero_demand_deps_def)
  have ev: "map_option (\<lambda>a. (pa_status a, pa_quantity a, pa_total_cost a,
                      map item_sku (action_items a)))
     (entries (as_manager (run_cycle dry_agent scenario_agent_env 0 scenario_inventory
                             json_manager)) ''batch-token'')
   = Some (''pending'', 10, 125, [''WIDGET-001''])"
    by (simp add: run_cycle_def scenario_inventory_def fetch_transaction_data_def
        process_sku_def get_vendor_data_def scenario_agent_env_def all_vendors_def
        mk_vendor_def zero_demand_deps_def evaluate_reorder_need_def Let_def
        int_default_def real_default_def fallback_for_zero_demand_def default_policy_def
        estimate_days_until_stockout_def stockout_date_of_PInf generate_evidence_summary_def
        bump_reorders_def bump_processed_def dry_agent_def add_error_def
        send_batch_approval_email_def store_pending_action_def json_manager_def
        batch_action_data_def batch_item_of_def action_items_def get_default_def
        calculate_cost_savings_def)
  show ?thesis
    using stored_actions_come_from_reorders
            [OF h1 h2, of dry_agent 0 scenario_inventory json_manager] ev
    by simp
qed

end
